theory Spec2Isabelle
  imports Complex_Main
begin

section \<open>JavaScript numbers\<close>

text \<open>
  The signal engine of the dashboard (the component \<^verbatim>\<open>TradingSignals\<close>) computes on
  JavaScript numbers. A finite number is modelled as a real; the three non-finite values
  are kept, because the source divides without any guard and JavaScript does not fail
  there: \<^verbatim>\<open>0/0\<close> is \<^verbatim>\<open>NaN\<close> and \<^verbatim>\<open>x/0\<close> is an infinity. A zero is taken as
  \<^verbatim>\<open>+0\<close>. The operations of this section are exact (no rounding, no overflow); the
  operations that round their result to a double follow in the next section, for the one
  block of the source where a property depends on the rounding.
\<close>

datatype jsnum = Num real | PosInf | NegInf | NaN

fun js_neg :: "jsnum \<Rightarrow> jsnum" where
  "js_neg (Num a) = Num (- a)"
| "js_neg PosInf = NegInf"
| "js_neg NegInf = PosInf"
| "js_neg NaN = NaN"

fun js_add :: "jsnum \<Rightarrow> jsnum \<Rightarrow> jsnum" where
  "js_add NaN _ = NaN"
| "js_add _ NaN = NaN"
| "js_add (Num a) (Num b) = Num (a + b)"
| "js_add PosInf NegInf = NaN"
| "js_add NegInf PosInf = NaN"
| "js_add PosInf _ = PosInf"
| "js_add NegInf _ = NegInf"
| "js_add _ PosInf = PosInf"
| "js_add _ NegInf = NegInf"

definition js_sub :: "jsnum \<Rightarrow> jsnum \<Rightarrow> jsnum" where
  "js_sub a b = js_add a (js_neg b)"

fun js_mul :: "jsnum \<Rightarrow> jsnum \<Rightarrow> jsnum" where
  "js_mul NaN _ = NaN"
| "js_mul _ NaN = NaN"
| "js_mul (Num a) (Num b) = Num (a * b)"
| "js_mul (Num a) b = (if a = 0 then NaN else if 0 < a then b else js_neg b)"
| "js_mul a (Num b) = (if b = 0 then NaN else if 0 < b then a else js_neg a)"
| "js_mul a b = (if a = b then PosInf else NegInf)"

fun js_div :: "jsnum \<Rightarrow> jsnum \<Rightarrow> jsnum" where
  "js_div NaN _ = NaN"
| "js_div _ NaN = NaN"
| "js_div (Num a) (Num b) =
     (if b \<noteq> 0 then Num (a / b)
      else if a = 0 then NaN
      else if 0 < a then PosInf else NegInf)"
| "js_div (Num a) _ = Num 0"
| "js_div a (Num b) = (if 0 \<le> b then a else js_neg a)"
| "js_div _ _ = NaN"

fun js_abs :: "jsnum \<Rightarrow> jsnum" where
  "js_abs (Num a) = Num \<bar>a\<bar>"
| "js_abs PosInf = PosInf"
| "js_abs NegInf = PosInf"
| "js_abs NaN = NaN"

fun js_lt :: "jsnum \<Rightarrow> jsnum \<Rightarrow> bool" where
  "js_lt NaN _ = False"
| "js_lt _ NaN = False"
| "js_lt (Num a) (Num b) = (a < b)"
| "js_lt NegInf b = (b \<noteq> NegInf)"
| "js_lt a PosInf = (a \<noteq> PosInf)"
| "js_lt _ _ = False"

definition js_gt :: "jsnum \<Rightarrow> jsnum \<Rightarrow> bool" where
  "js_gt a b = js_lt b a"

fun js_le :: "jsnum \<Rightarrow> jsnum \<Rightarrow> bool" where
  "js_le NaN _ = False"
| "js_le _ NaN = False"
| "js_le a b = (a = b \<or> js_lt a b)"

text \<open>\<^verbatim>\<open>Math.min(a, b)\<close>: \<^verbatim>\<open>NaN\<close> as soon as one argument is.\<close>

fun js_min :: "jsnum \<Rightarrow> jsnum \<Rightarrow> jsnum" where
  "js_min NaN _ = NaN"
| "js_min _ NaN = NaN"
| "js_min a b = (if js_lt b a then b else a)"

section \<open>Rounding to a double\<close>

text \<open>
  An IEEE 754 double has a significand of 53 bits and an exponent from -1022 to 1023.
  Every arithmetic operation of JavaScript returns the double nearest to the exact
  result, a tie going to the even significand, and an infinity when that double would be
  \<open>2^1024\<close> or more.
\<close>

text \<open>The nearest integer, a tie going to the even one.\<close>

definition rne :: "real \<Rightarrow> int" where
  "rne r =
     (let f = \<lfloor>r\<rfloor>; d = r - of_int f in
      if d < 1 / 2 then f
      else if 1 / 2 < d then f + 1
      else if even f then f else f + 1)"

text \<open>
  The exponent of a magnitude: the greatest \<open>e\<close> from \<open>top\<close> downwards with \<open>2^e \<le> a\<close>,
  and \<open>top - n\<close> when none of the \<open>n\<close> exponents tried fits. From 1023 with 2045 tries
  the result is at least -1022, the exponent of the subnormal numbers.
\<close>

fun expo_from :: "nat \<Rightarrow> int \<Rightarrow> real \<Rightarrow> int" where
  "expo_from 0 e a = e"
| "expo_from (Suc n) e a = (if 2 powi e \<le> a then e else expo_from n (e - 1) a)"

definition expo :: "real \<Rightarrow> int" where
  "expo a = expo_from 2045 1023 a"

text \<open>The double nearest to a real, as a JavaScript number.\<close>

definition fl :: "real \<Rightarrow> jsnum" where
  "fl x =
     (let a = \<bar>x\<bar>;
          q = 2 powi (expo a - 52);
          y = of_int (rne (a / q)) * q in
      if 2 powi 1024 \<le> y then (if 0 < x then PosInf else NegInf)
      else Num (sgn x * y))"

fun js_round :: "jsnum \<Rightarrow> jsnum" where
  "js_round (Num x) = fl x"
| "js_round PosInf = PosInf"
| "js_round NegInf = NegInf"
| "js_round NaN = NaN"

text \<open>The operators \<^verbatim>\<open>-\<close>, \<^verbatim>\<open>*\<close> and \<^verbatim>\<open>/\<close> on doubles.\<close>

definition dbl_sub :: "jsnum \<Rightarrow> jsnum \<Rightarrow> jsnum" where
  "dbl_sub a b = js_round (js_sub a b)"

definition dbl_mul :: "jsnum \<Rightarrow> jsnum \<Rightarrow> jsnum" where
  "dbl_mul a b = js_round (js_mul a b)"

definition dbl_div :: "jsnum \<Rightarrow> jsnum \<Rightarrow> jsnum" where
  "dbl_div a b = js_round (js_div a b)"

section \<open>The randomness source\<close>

text \<open>
  \<^verbatim>\<open>Math.random()\<close> reads an ambient generator. The generator is the sequence of the
  draws still to come; a call returns the first draw and the rest of the sequence. The
  contract of \<^verbatim>\<open>Math.random\<close> (every draw in \<open>[0, 1)\<close>) is a hypothesis wherever a
  property needs it.
\<close>

type_synonym rng = "nat \<Rightarrow> real"

definition Math_random :: "rng \<Rightarrow> real \<times> rng" where
  "Math_random g = (g 0, \<lambda>n. g (Suc n))"

section \<open>Data model\<close>

text \<open>The union type \<^verbatim>\<open>'BUY' | 'SELL' | 'HOLD'\<close> of indicator signals and actions.\<close>

datatype side = BUY | SELL | HOLD

datatype risk = LOW | MEDIUM | HIGH

text \<open>\<^verbatim>\<open>interface TechnicalIndicator\<close>; the field \<^verbatim>\<open>value\<close> is \<open>val\<close> here.\<close>

record TechnicalIndicator =
  name :: string
  val :: jsnum
  signal :: side
  strength :: jsnum
  description :: string

text \<open>
  The entries of \<^verbatim>\<open>reasoning\<close> are template strings; each constructor stands for one
  template and carries the number the template renders.
\<close>

datatype reason =
    SuggestBuying nat
  | PositiveSentiment
  | SuggestSelling nat
  | NegativeSentiment
  | MixedSignals
  | IndicatorsNeutral nat
  | UpsidePotential jsnum
  | DownsidePotential jsnum

text \<open>\<^verbatim>\<open>interface TradingSignal\<close>.\<close>

record TradingSignal =
  action :: side
  confidence :: jsnum
  entryPrice :: jsnum
  targetPrice :: jsnum
  stopLoss :: jsnum
  riskReward :: jsnum
  timeframe :: string
  reasoning :: "reason list"

text \<open>\<^verbatim>\<open>interface SignalData\<close>.\<close>

record SignalData =
  currentPrice :: jsnum
  tradingSignal :: TradingSignal
  indicators :: "TechnicalIndicator list"
  marketSentiment :: jsnum
  riskLevel :: risk

section \<open>calculateTechnicalIndicators\<close>

text \<open>The five blocks of \<^verbatim>\<open>calculateTechnicalIndicators\<close>, one definition each.\<close>

definition rsiIndicator :: "real \<Rightarrow> TechnicalIndicator" where
  "rsiIndicator r =
     (let rsi = js_mul (Num r) (Num 100) in
      \<lparr> name = ''RSI (14)'',
        val = rsi,
        signal = (if js_lt rsi (Num 30) then BUY
                  else if js_gt rsi (Num 70) then SELL else HOLD),
        strength = js_mul (js_div (js_abs (js_sub rsi (Num 50))) (Num 50)) (Num 100),
        description = ''Momentum oscillator measuring speed and magnitude of price changes'' \<rparr>)"

definition macdIndicator :: "real \<Rightarrow> TechnicalIndicator" where
  "macdIndicator r =
     (let macd = js_mul (js_sub (Num r) (Num 0.5)) (Num 5) in
      \<lparr> name = ''MACD'',
        val = macd,
        signal = (if js_gt macd (Num 0) then BUY
                  else if js_lt macd (Num (- 1)) then SELL else HOLD),
        strength = js_mul (js_abs macd) (Num 20),
        description = ''Trend-following momentum indicator'' \<rparr>)"

definition maCrossIndicator :: "jsnum \<Rightarrow> real \<Rightarrow> real \<Rightarrow> TechnicalIndicator" where
  "maCrossIndicator price r20 r50 =
     (let ma20 = js_mul price (js_add (Num 0.95) (js_mul (Num r20) (Num 0.1)));
          ma50 = js_mul price (js_add (Num 0.92) (js_mul (Num r50) (Num 0.16))) in
      \<lparr> name = ''MA Cross'',
        val = js_mul (js_div (js_sub ma20 ma50) ma50) (Num 100),
        signal = (if js_gt ma20 ma50 then BUY else SELL),
        strength = js_mul (js_abs (js_div (js_sub ma20 ma50) ma50)) (Num 500),
        description = ''20-day vs 50-day moving average crossover'' \<rparr>)"

text \<open>
  The Bollinger block is computed in doubles: its band position is 50 exactly only when
  no operation rounds. The literals \<^verbatim>\<open>1.02\<close> and \<^verbatim>\<open>0.98\<close> are the doubles nearest to
  them; 100, 20, 80, 50 and 2 are doubles as they are.
\<close>

definition bollingerIndicator :: "jsnum \<Rightarrow> TechnicalIndicator" where
  "bollingerIndicator price =
     (let upperBand = dbl_mul price (fl 1.02);
          lowerBand = dbl_mul price (fl 0.98);
          bbPosition = dbl_mul (dbl_div (dbl_sub price lowerBand) (dbl_sub upperBand lowerBand))
                               (Num 100) in
      \<lparr> name = ''Bollinger Bands'',
        val = bbPosition,
        signal = (if js_lt bbPosition (Num 20) then BUY
                  else if js_gt bbPosition (Num 80) then SELL else HOLD),
        strength = dbl_mul (js_abs (dbl_sub bbPosition (Num 50))) (Num 2),
        description = ''Volatility indicator using standard deviations'' \<rparr>)"

definition volumeIndicator :: "real \<Rightarrow> TechnicalIndicator" where
  "volumeIndicator r =
     (let volumeStrength = js_mul (Num r) (Num 100) in
      \<lparr> name = ''Volume'',
        val = volumeStrength,
        signal = (if js_gt volumeStrength (Num 70) then BUY
                  else if js_lt volumeStrength (Num 30) then SELL else HOLD),
        strength = volumeStrength,
        description = ''Trading volume momentum analysis'' \<rparr>)"

text \<open>The draws are taken in the order of the source: RSI, MACD, MA20, MA50, volume.\<close>

definition calculateTechnicalIndicators ::
    "jsnum \<Rightarrow> rng \<Rightarrow> TechnicalIndicator list \<times> rng" where
  "calculateTechnicalIndicators price g0 =
     (case Math_random g0 of (r1, g1) \<Rightarrow>
      case Math_random g1 of (r2, g2) \<Rightarrow>
      case Math_random g2 of (r3, g3) \<Rightarrow>
      case Math_random g3 of (r4, g4) \<Rightarrow>
      case Math_random g4 of (r5, g5) \<Rightarrow>
        ([rsiIndicator r1, macdIndicator r2, maCrossIndicator price r3 r4,
          bollingerIndicator price, volumeIndicator r5], g5))"

section \<open>generateTradingSignal\<close>

definition buySignals :: "TechnicalIndicator list \<Rightarrow> nat" where
  "buySignals inds = length (filter (\<lambda>ind. signal ind = BUY) inds)"

definition sellSignals :: "TechnicalIndicator list \<Rightarrow> nat" where
  "sellSignals inds = length (filter (\<lambda>ind. signal ind = SELL) inds)"

definition holdSignals :: "TechnicalIndicator list \<Rightarrow> nat" where
  "holdSignals inds = length (filter (\<lambda>ind. signal ind = HOLD) inds)"

definition buyStrength :: "TechnicalIndicator list \<Rightarrow> jsnum" where
  "buyStrength inds =
     foldl (\<lambda>sum ind. js_add sum (strength ind)) (Num 0)
       (filter (\<lambda>ind. signal ind = BUY) inds)"

definition sellStrength :: "TechnicalIndicator list \<Rightarrow> jsnum" where
  "sellStrength inds =
     foldl (\<lambda>sum ind. js_add sum (strength ind)) (Num 0)
       (filter (\<lambda>ind. signal ind = SELL) inds)"

definition sentimentWeight :: "jsnum \<Rightarrow> jsnum" where
  "sentimentWeight sentiment = js_mul sentiment (Num 20)"

definition totalBuyStrength :: "TechnicalIndicator list \<Rightarrow> jsnum \<Rightarrow> jsnum" where
  "totalBuyStrength inds sentiment =
     js_add (buyStrength inds)
       (if js_gt sentiment (Num 0) then sentimentWeight sentiment else Num 0)"

definition totalSellStrength :: "TechnicalIndicator list \<Rightarrow> jsnum \<Rightarrow> jsnum" where
  "totalSellStrength inds sentiment =
     js_add (sellStrength inds)
       (if js_lt sentiment (Num 0) then js_abs (sentimentWeight sentiment) else Num 0)"

text \<open>
  The first half of \<^verbatim>\<open>generateTradingSignal\<close>: action, confidence and the first
  entries of the reasoning. Only the HOLD branch draws a random number.
\<close>

definition chooseAction ::
    "TechnicalIndicator list \<Rightarrow> jsnum \<Rightarrow> rng \<Rightarrow> (side \<times> jsnum \<times> reason list) \<times> rng" where
  "chooseAction inds sentiment g =
     (let tb = totalBuyStrength inds sentiment;
          ts = totalSellStrength inds sentiment in
      if js_gt tb ts \<and> 2 \<le> buySignals inds then
        ((BUY,
          js_min (Num 95) (js_mul (js_div tb (js_add tb ts)) (Num 100)),
          [SuggestBuying (buySignals inds)]
            @ (if js_gt sentiment (Num 0.1) then [PositiveSentiment] else [])), g)
      else if js_gt ts tb \<and> 2 \<le> sellSignals inds then
        ((SELL,
          js_min (Num 95) (js_mul (js_div ts (js_add tb ts)) (Num 100)),
          [SuggestSelling (sellSignals inds)]
            @ (if js_lt sentiment (Num (- 0.1)) then [NegativeSentiment] else [])), g)
      else
        (case Math_random g of (r, g') \<Rightarrow>
          ((HOLD,
            js_add (Num 50) (js_mul (Num r) (Num 20)),
            [MixedSignals]
              @ (if 0 < holdSignals inds then [IndicatorsNeutral (holdSignals inds)]
                 else [])), g')))"

text \<open>\<^verbatim>\<open>0.02 + Math.random() * 0.03\<close>, from the draw.\<close>

definition volatilityOf :: "real \<Rightarrow> jsnum" where
  "volatilityOf r = js_add (Num 0.02) (js_mul (Num r) (Num 0.03))"

text \<open>
  The second half: entry, target and stop-loss prices of an action at a volatility, with
  the reasoning entry the branch appends.
\<close>

definition priceLevels ::
    "side \<Rightarrow> jsnum \<Rightarrow> jsnum \<Rightarrow> jsnum \<times> jsnum \<times> jsnum \<times> reason list" where
  "priceLevels act price volatility =
     (if act = BUY then
        (let entryP = js_mul price (js_sub (Num 1) (Num 0.005));
             targetP = js_mul price (js_add (Num 1) (js_mul volatility (Num 2)));
             stopL = js_mul price (js_sub (Num 1) volatility) in
         (entryP, targetP, stopL,
          [UpsidePotential (js_mul (js_div (js_sub targetP entryP) entryP) (Num 100))]))
      else if act = SELL then
        (let entryP = js_mul price (js_add (Num 1) (Num 0.005));
             targetP = js_mul price (js_sub (Num 1) (js_mul volatility (Num 2)));
             stopL = js_mul price (js_add (Num 1) volatility) in
         (entryP, targetP, stopL,
          [DownsidePotential (js_mul (js_div (js_sub entryP targetP) entryP) (Num 100))]))
      else (price, price, price, []))"

definition generateTradingSignal ::
    "jsnum \<Rightarrow> TechnicalIndicator list \<Rightarrow> jsnum \<Rightarrow> rng \<Rightarrow> TradingSignal \<times> rng" where
  "generateTradingSignal price inds sentiment g =
     (case chooseAction inds sentiment g of ((act, conf, reasons), g1) \<Rightarrow>
      case Math_random g1 of (rv, g2) \<Rightarrow>
      case priceLevels act price (volatilityOf rv) of (entryP, targetP, stopL, pushed) \<Rightarrow>
        (\<lparr> action = act,
           confidence = conf,
           entryPrice = entryP,
           targetPrice = targetP,
           stopLoss = stopL,
           riskReward = js_abs (js_div (js_sub targetP entryP) (js_sub entryP stopL)),
           timeframe = ''1-3 days'',
           reasoning = reasons @ pushed \<rparr>, g2))"

text \<open>The decision alone, without the generator that is left.\<close>

abbreviation decide :: "jsnum \<Rightarrow> TechnicalIndicator list \<Rightarrow> jsnum \<Rightarrow> rng \<Rightarrow> TradingSignal" where
  "decide price inds sentiment g \<equiv> fst (generateTradingSignal price inds sentiment g)"

section \<open>generateSignalData\<close>

text \<open>The risk level that \<^verbatim>\<open>generateSignalData\<close> derives from the confidence.\<close>

definition riskTier :: "jsnum \<Rightarrow> risk" where
  "riskTier conf =
     (if js_gt conf (Num 80) then LOW
      else if js_gt conf (Num 60) then MEDIUM
      else HIGH)"

definition generateSignalData :: "rng \<Rightarrow> SignalData \<times> rng" where
  "generateSignalData g0 =
     (case Math_random g0 of (rp, g1) \<Rightarrow>
      case Math_random g1 of (rs, g2) \<Rightarrow>
      let price = js_add (Num 100) (js_mul (Num rp) (Num 400));
          sentiment = js_mul (js_sub (Num rs) (Num 0.5)) (Num 2) in
      case calculateTechnicalIndicators price g2 of (inds, g3) \<Rightarrow>
      case generateTradingSignal price inds sentiment g3 of (sig, g4) \<Rightarrow>
        (\<lparr> currentPrice = price,
           tradingSignal = sig,
           indicators = inds,
           marketSentiment = sentiment,
           riskLevel = riskTier (confidence sig) \<rparr>, g4))"

text \<open>The order of the risk levels, from the least to the most risky.\<close>

fun riskRank :: "risk \<Rightarrow> nat" where
  "riskRank LOW = 0"
| "riskRank MEDIUM = 1"
| "riskRank HIGH = 2"

section \<open>Inputs of the properties\<close>

text \<open>A finite number that is not negative: what a strength is meant to be.\<close>

definition nonneg :: "jsnum \<Rightarrow> bool" where
  "nonneg x = (case x of Num a \<Rightarrow> 0 \<le> a | _ \<Rightarrow> False)"

text \<open>
  The indicator lists of the scenarios: an indicator is given by its name, its signal and
  its strength, the two fields the decision never reads being fixed.
\<close>

abbreviation ind :: "string \<Rightarrow> side \<Rightarrow> real \<Rightarrow> TechnicalIndicator" where
  "ind nm sg st \<equiv>
     \<lparr> name = nm, val = Num 0, signal = sg, strength = Num st, description = [] \<rparr>"

abbreviation buyScenario :: "TechnicalIndicator list" where
  "buyScenario \<equiv> [ind ''RSI'' BUY 40, ind ''MACD'' BUY 30, ind ''MA'' SELL 10]"

abbreviation sellScenario :: "TechnicalIndicator list" where
  "sellScenario \<equiv> [ind ''RSI'' SELL 40, ind ''MACD'' SELL 30, ind ''MA'' BUY 10]"

abbreviation holdScenario :: "TechnicalIndicator list" where
  "holdScenario \<equiv>
     [ind ''RSI'' HOLD 10, ind ''MACD'' HOLD 20, ind ''MA'' HOLD 30, ind ''BB'' HOLD 0,
      ind ''Volume'' HOLD 50]"

abbreviation oneBuyScenario :: "TechnicalIndicator list" where
  "oneBuyScenario \<equiv> [ind ''RSI'' BUY 90, ind ''MACD'' SELL 10, ind ''MA'' HOLD 0]"

text \<open>A generator whose every draw is one half.\<close>

abbreviation half :: rng where
  "half \<equiv> (\<lambda>n. 1 / 2)"

section \<open>Auxiliary facts\<close>

lemmas eval_defs = totalBuyStrength_def totalSellStrength_def buyStrength_def sellStrength_def
  buySignals_def sellSignals_def holdSignals_def sentimentWeight_def js_gt_def js_sub_def
  generateTradingSignal_def chooseAction_def priceLevels_def volatilityOf_def Math_random_def
  Let_def

lemma js_lt_asym: "js_lt a b \<Longrightarrow> \<not> js_lt b a"
  by (cases a; cases b; simp)

lemma nonnegE: "nonneg x \<Longrightarrow> \<exists>a. x = Num a \<and> 0 \<le> a"
  by (cases x) (simp_all add: nonneg_def)

subsection \<open>The fields of a decision\<close>

lemma action_decide:
  "action (decide p inds s g) = fst (fst (chooseAction inds s g))"
  by (simp add: generateTradingSignal_def split: prod.splits)

lemma chooseAction_action:
  "fst (fst (chooseAction inds s g)) =
     (if js_gt (totalBuyStrength inds s) (totalSellStrength inds s) \<and> 2 \<le> buySignals inds
      then BUY
      else if js_gt (totalSellStrength inds s) (totalBuyStrength inds s) \<and> 2 \<le> sellSignals inds
      then SELL
      else HOLD)"
  by (simp add: chooseAction_def Let_def split: prod.splits)

lemma chooseAction_rng:
  "snd (chooseAction inds s g) =
     (if fst (fst (chooseAction inds s g)) = HOLD then (\<lambda>n. g (Suc n)) else g)"
  by (simp add: chooseAction_def Let_def Math_random_def split: prod.splits)

lemma decide_confidence:
  "confidence (decide p inds s g) = fst (snd (fst (chooseAction inds s g)))"
  by (simp add: generateTradingSignal_def split: prod.splits)

text \<open>The volatility of a decision comes from the first draw, or the second after a HOLD.\<close>

lemma decide_levels:
  "(entryPrice (decide p inds s g), targetPrice (decide p inds s g),
    stopLoss (decide p inds s g)) =
     (case priceLevels (action (decide p inds s g)) p
        (volatilityOf (if action (decide p inds s g) = HOLD then g 1 else g 0)) of
        (e, t, l, _) \<Rightarrow> (e, t, l))"
proof -
  obtain act conf rs g1 where c: "chooseAction inds s g = ((act, conf, rs), g1)"
    by (metis prod.exhaust)
  have g1: "g1 = (if act = HOLD then (\<lambda>n. g (Suc n)) else g)"
    using chooseAction_rng [of inds s g] c by simp
  show ?thesis
    by (simp add: generateTradingSignal_def c g1 Math_random_def split: prod.splits)
qed

lemma decide_riskReward:
  "riskReward (decide p inds s g) =
     js_abs (js_div (js_sub (targetPrice (decide p inds s g)) (entryPrice (decide p inds s g)))
                    (js_sub (entryPrice (decide p inds s g)) (stopLoss (decide p inds s g))))"
  by (simp add: generateTradingSignal_def split: prod.splits)

lemma riskReward_real:
  assumes "entryPrice (decide p inds s g) = Num e" "targetPrice (decide p inds s g) = Num t"
    "stopLoss (decide p inds s g) = Num l" "e \<noteq> l"
  shows "riskReward (decide p inds s g) = Num (\<bar>t - e\<bar> / \<bar>e - l\<bar>)"
  using assms by (simp add: decide_riskReward js_sub_def)

subsection \<open>Price levels on finite numbers\<close>

lemma volatilityOf_Num: "volatilityOf r = Num (0.02 + r * 0.03)"
  by (simp add: volatilityOf_def)

lemma priceLevels_BUY:
  "priceLevels BUY (Num p) (Num v) =
     (Num (p * 0.995), Num (p * (1 + 2 * v)), Num (p * (1 - v)),
      [UpsidePotential
         (js_mul (js_div (js_sub (Num (p * (1 + 2 * v))) (Num (p * 0.995))) (Num (p * 0.995)))
                 (Num 100))])"
  by (simp add: priceLevels_def js_sub_def Let_def mult.commute)

lemma priceLevels_SELL:
  "priceLevels SELL (Num p) (Num v) =
     (Num (p * 1.005), Num (p * (1 - 2 * v)), Num (p * (1 + v)),
      [DownsidePotential
         (js_mul (js_div (js_sub (Num (p * 1.005)) (Num (p * (1 - 2 * v)))) (Num (p * 1.005)))
                 (Num 100))])"
  by (simp add: priceLevels_def js_sub_def Let_def mult.commute)

subsection \<open>Strengths that are finite and not negative\<close>

lemma foldl_strength_nonneg:
  "0 \<le> a \<Longrightarrow> \<forall>i\<in>set xs. nonneg (strength i) \<Longrightarrow>
     \<exists>b. foldl (\<lambda>sum i. js_add sum (strength i)) (Num a) xs = Num b \<and> 0 \<le> b"
proof (induction xs arbitrary: a)
  case Nil
  then show ?case by simp
next
  case (Cons x xs)
  obtain c where c: "strength x = Num c" "0 \<le> c" using Cons.prems(2) nonnegE by auto
  have "0 \<le> a + c" using Cons.prems(1) c by simp
  from Cons.IH [OF this] Cons.prems(2) show ?case by (simp add: c)
qed

lemma totals_nonneg:
  assumes "\<forall>i\<in>set inds. nonneg (strength i)"
  shows "\<exists>b l. totalBuyStrength inds (Num s) = Num b \<and> totalSellStrength inds (Num s) = Num l
              \<and> 0 \<le> b \<and> 0 \<le> l"
proof -
  obtain b0 where b0: "buyStrength inds = Num b0" "0 \<le> b0"
    using foldl_strength_nonneg [of 0 "filter (\<lambda>i. signal i = BUY) inds"] assms
    by (auto simp add: buyStrength_def)
  obtain l0 where l0: "sellStrength inds = Num l0" "0 \<le> l0"
    using foldl_strength_nonneg [of 0 "filter (\<lambda>i. signal i = SELL) inds"] assms
    by (auto simp add: sellStrength_def)
  show ?thesis using b0 l0
    by (auto simp add: totalBuyStrength_def totalSellStrength_def sentimentWeight_def js_gt_def)
qed

subsection \<open>Indicators that signal HOLD\<close>

lemma all_hold_counts:
  assumes "\<forall>i\<in>set inds. signal i = HOLD"
  shows "buySignals inds = 0" and "sellSignals inds = 0"
  using assms by (auto simp add: buySignals_def sellSignals_def filter_empty_conv)

lemma hold_skipped:
  "signal b = HOLD \<Longrightarrow>
     buySignals (xs @ b # ys) = buySignals (xs @ ys) \<and>
     sellSignals (xs @ b # ys) = sellSignals (xs @ ys) \<and>
     totalBuyStrength (xs @ b # ys) s = totalBuyStrength (xs @ ys) s \<and>
     totalSellStrength (xs @ b # ys) s = totalSellStrength (xs @ ys) s"
  by (simp add: buySignals_def sellSignals_def totalBuyStrength_def totalSellStrength_def
        buyStrength_def sellStrength_def)

subsection \<open>The error of a rounding\<close>

lemma rne_err: "\<bar>of_int (rne r) - r\<bar> \<le> 1 / 2"
proof -
  have "of_int \<lfloor>r\<rfloor> \<le> r" "r < of_int \<lfloor>r\<rfloor> + 1" by linarith+
  then show ?thesis by (auto simp add: rne_def Let_def)
qed

lemma rne_eq: 
  assumes "\<bar>r - of_int m\<bar> < 1 / 2" shows "rne r = m"
proof (cases "of_int m \<le> r")
  case True
  then have "\<lfloor>r\<rfloor> = m" using assms by (intro floor_unique) linarith+
  then show ?thesis using assms True by (simp add: rne_def Let_def)
next
  case False
  then have f: "\<lfloor>r\<rfloor> = m - 1" using assms by (intro floor_unique) (simp, linarith)+
  show ?thesis using assms False by (simp add: rne_def Let_def f)
qed

lemma rne_nonneg: "0 \<le> r \<Longrightarrow> 0 \<le> rne r"
  by (simp add: rne_def Let_def)

lemma pow2_less_iff: "(2::real) powi a < 2 powi b \<longleftrightarrow> a < b"
  by (metis power_int_strict_increasing not_less_iff_gr_or_eq one_less_numeral_iff semiring_norm(76))

lemma pow2_Suc: "(2::real) powi (e + 1) = 2 * 2 powi e"
  by (simp add: power_int_add)

lemma expo_from_spec:
  "a < 2 powi (hi + 1) \<Longrightarrow>
     expo_from n hi a \<le> hi \<and> hi - int n \<le> expo_from n hi a \<and>
     a < 2 powi (expo_from n hi a + 1) \<and>
     (2 powi (expo_from n hi a) \<le> a \<or> expo_from n hi a = hi - int n)"
proof (induction n arbitrary: hi)
  case 0
  then show ?case by simp
next
  case (Suc n)
  show ?case
  proof (cases "2 powi hi \<le> a")
    case True
    then show ?thesis using Suc.prems by simp
  next
    case False
    then have "a < 2 powi ((hi - 1) + 1)" by simp
    from Suc.IH [OF this] False show ?thesis by (simp add: algebra_simps)
  qed
qed

lemma expo_spec:
  assumes "a < 2 powi 1024"
  shows "- 1022 \<le> expo a" "expo a \<le> 1023" "a < 2 powi (expo a + 1)"
    "2 powi (expo a) \<le> a \<or> expo a = - 1022"
  using expo_from_spec [of a 1023 2045] assms by (simp_all add: expo_def)

lemma expo_eq:
  assumes "- 1022 \<le> e" "e \<le> 1023" "2 powi e \<le> a" "a < 2 powi (e + 1)"
  shows "expo a = e"
proof -
  have "(2::real) powi (e + 1) \<le> 2 powi 1024"
    using assms(2) by (intro power_int_increasing) simp_all
  then have a: "a < 2 powi 1024" using assms(4) by linarith
  note s = expo_spec [OF a]
  have "(2::real) powi e < 2 powi (expo a + 1)" using assms(3) s(3) by linarith
  then have 1: "e \<le> expo a" by (simp add: pow2_less_iff)
  have 2: "expo a \<le> e"
  proof (rule disjE [OF s(4)])
    assume "2 powi expo a \<le> a"
    then have "(2::real) powi (expo a) < 2 powi (e + 1)" using assms(4) by linarith
    then show ?thesis by (simp add: pow2_less_iff)
  next
    assume "expo a = - 1022"
    then show ?thesis using assms(1) by simp
  qed
  show ?thesis using 1 2 by simp
qed

lemma pow2_split: "(2::real) powi (e + 1) = 2 powi (e - 52) * 2 ^ 53"
proof -
  have "(2::real) powi (e - 52 + 53) = 2 powi (e - 52) * 2 powi 53"
    by (rule power_int_add) simp
  moreover have "e - 52 + 53 = e + 1" by simp
  ultimately show ?thesis by simp
qed

lemma pow2_split': "(2::real) powi e = 2 powi (e - 52) * 2 ^ 52"
proof -
  have "(2::real) powi (e - 52 + 52) = 2 powi (e - 52) * 2 powi 52"
    by (rule power_int_add) simp
  moreover have "e - 52 + 52 = e" by simp
  ultimately show ?thesis by simp
qed

lemma pow2_split2: "(2::real) powi (e + 2) = 2 powi (e - 52) * 2 ^ 54"
proof -
  have "(2::real) powi (e - 52 + 54) = 2 powi (e - 52) * 2 powi 54"
    by (rule power_int_add) simp
  moreover have "e - 52 + 54 = e + 2" by simp
  ultimately show ?thesis by simp
qed

text \<open>Evaluation of fl at a concrete number, from its exponent and significand.\<close>

lemma fl_eval:
  assumes e: "- 1022 \<le> e" "e \<le> 1022"
    and a: "2 powi e \<le> \<bar>x\<bar>" "\<bar>x\<bar> < 2 powi (e + 1)"
    and m: "\<bar>\<bar>x\<bar> / 2 powi (e - 52) - of_int m\<bar> < 1 / 2"
  shows "fl x = Num (sgn x * (of_int m * 2 powi (e - 52)))"
proof -
  have ex: "expo \<bar>x\<bar> = e" using e a by (intro expo_eq) simp_all
  define q :: real where "q = 2 powi (e - 52)"
  have q: "0 < q" by (simp add: q_def)
  have r: "rne (\<bar>x\<bar> / q) = m" using m by (intro rne_eq) (simp add: q_def)
  have "\<bar>x\<bar> / q < 2 ^ 53"
    using a(2) [unfolded pow2_split] q by (simp add: q_def field_simps)
  moreover have "of_int m - \<bar>x\<bar> / q < 1 / 2"
    using m by (simp only: abs_less_iff q_def) linarith
  ultimately have "of_int m < (2::real) ^ 53 + 1 / 2" by linarith
  then have "of_int m * q < (2 ^ 53 + 1 / 2) * q" using q by simp
  also have "\<dots> \<le> 2 ^ 54 * q" using q by simp
  also have "\<dots> = 2 powi (e + 2)"
    by (simp add: pow2_split2 q_def)
  also have "\<dots> \<le> 2 powi 1024" using e(2) by (intro power_int_increasing) simp_all
  finally have "\<not> 2 powi 1024 \<le> of_int m * q" by simp
  then show ?thesis using r by (simp add: fl_def Let_def ex q_def [symmetric])
qed

text \<open>The error of fl: half a unit in the last place.\<close>

lemma fl_bound:
  assumes "\<bar>x\<bar> < 2 powi 1023"
  shows "\<exists>y. fl x = Num y \<and> (0 \<le> x \<longrightarrow> 0 \<le> y) \<and>
             \<bar>y - x\<bar> \<le> \<bar>x\<bar> / 2 ^ 53 + 2 powi (- 1075) \<and>
             (2 powi (- 1022) \<le> \<bar>x\<bar> \<longrightarrow> \<bar>y - x\<bar> \<le> \<bar>x\<bar> / 2 ^ 53)"
proof -
  define a where "a = \<bar>x\<bar>"
  define e where "e = expo a"
  define q :: real where "q = 2 powi (e - 52)"
  define m where "m = rne (a / q)"
  have a0: "0 \<le> a" by (simp add: a_def)
  have q: "0 < q" by (simp add: q_def)
  have "(2::real) powi 1023 \<le> 2 powi 1024" by (intro power_int_increasing) simp_all
  then have a': "a < 2 powi 1024" using assms by (simp add: a_def)
  note s = expo_spec [OF a', folded e_def]
  have e1022: "e \<le> 1022"
  proof (rule disjE [OF s(4)])
    assume "2 powi e \<le> a"
    then have "(2::real) powi e < 2 powi 1023" using assms by (simp add: a_def)
    then show ?thesis by (simp only: pow2_less_iff)
  qed simp
  have "\<bar>of_int m - a / q\<bar> \<le> 1 / 2" unfolding m_def by (rule rne_err)
  then have "\<bar>of_int m - a / q\<bar> * q \<le> 1 / 2 * q" using q by (intro mult_right_mono) simp_all
  moreover have "of_int m * q - a = (of_int m - a / q) * q" using q by (simp add: field_simps)
  then have "\<bar>of_int m * q - a\<bar> = \<bar>of_int m - a / q\<bar> * q" using q by (simp add: abs_mult)
  ultimately have err: "\<bar>of_int m * q - a\<bar> \<le> q / 2" by simp
  have aq: "a < q * 2 ^ 53" using s(3) [unfolded pow2_split] by (simp add: q_def)
  have "of_int m * q \<le> a + q / 2" using err by linarith
  also have "\<dots> < q * 2 ^ 53 + q / 2" using aq by simp
  also have "\<dots> \<le> q * 2 ^ 54" using q by simp
  also have "\<dots> = 2 powi (e + 2)"
    by (simp add: pow2_split2 q_def)
  also have "\<dots> \<le> 2 powi 1024" using e1022 by (intro power_int_increasing) simp_all
  finally have no: "\<not> 2 powi 1024 \<le> of_int m * q" by simp
  define y where "y = sgn x * (of_int m * q)"
  have fl: "fl x = Num y"
    using no by (simp add: fl_def Let_def y_def m_def q_def e_def a_def)
  have m0: "0 \<le> m" unfolding m_def using a0 q by (intro rne_nonneg) simp
  have pos: "0 \<le> x \<Longrightarrow> 0 \<le> y" using m0 q by (simp add: y_def sgn_real_def)
  have "y - x = sgn x * (of_int m * q - a)"
    by (simp add: y_def a_def right_diff_distrib sgn_real_def)
  then have "\<bar>y - x\<bar> \<le> \<bar>of_int m * q - a\<bar>"
    by (simp add: abs_mult sgn_real_def)
  then have d: "\<bar>y - x\<bar> \<le> q / 2" using err by linarith
  have q2: "q / 2 = 2 powi e / 2 ^ 53"
    by (simp add: q_def pow2_split' [of e])
  have n: "2 powi e \<le> a \<Longrightarrow> \<bar>y - x\<bar> \<le> a / 2 ^ 53"
  proof -
    assume "2 powi e \<le> a"
    then have "2 powi e / 2 ^ 53 \<le> a / 2 ^ 53" by (simp add: divide_right_mono)
    then show ?thesis using d q2 by linarith
  qed
  have sub: "e = - 1022 \<Longrightarrow> q / 2 = 2 powi (- 1075)"
  proof -
    assume "e = - 1022"
    then have "q = 2 powi (- 1075 + 1)" by (simp add: q_def)
    also have "\<dots> = 2 * 2 powi (- 1075)" by (rule pow2_Suc)
    finally show ?thesis by simp
  qed
  have g: "\<bar>y - x\<bar> \<le> a / 2 ^ 53 + 2 powi (- 1075)"
  proof (rule disjE [OF s(4)])
    assume "2 powi e \<le> a"
    from n [OF this] have "\<bar>y - x\<bar> \<le> a / 2 ^ 53" .
    moreover have "0 < (2::real) powi (- 1075)"
      by (simp only: zero_less_power_int zero_less_numeral)
    ultimately show ?thesis by (intro add_increasing2) simp_all
  next
    assume "e = - 1022"
    from sub [OF this] d have "\<bar>y - x\<bar> \<le> 2 powi (- 1075)" by simp
    moreover have "0 \<le> a / 2 ^ 53" using a0 by simp
    ultimately show ?thesis by (intro add_increasing) simp_all
  qed
  have nrm: "2 powi (- 1022) \<le> a \<Longrightarrow> \<bar>y - x\<bar> \<le> a / 2 ^ 53"
  proof (rule disjE [OF s(4)])
    assume "2 powi e \<le> a"
    from n [OF this] show ?thesis .
  next
    assume "e = - 1022" and "2 powi (- 1022) \<le> a"
    then have "2 powi e \<le> a" by simp
    from n [OF this] show ?thesis .
  qed
  show ?thesis using fl pos g nrm unfolding a_def by blast
qed

lemma dbl_mul_Num: "dbl_mul (Num a) (Num b) = fl (a * b)"
  by (simp add: dbl_mul_def)

lemma dbl_sub_Num: "dbl_sub (Num a) (Num b) = fl (a - b)"
  by (simp add: dbl_sub_def js_sub_def)

lemma dbl_div_Num: "b \<noteq> 0 \<Longrightarrow> dbl_div (Num a) (Num b) = fl (a / b)"
  by (simp add: dbl_div_def)

text \<open>A positive number in the normal range is rounded with a relative error of \<open>2^-53\<close>.\<close>

lemma fl_normal:
  assumes "2 powi (- 1022) \<le> x" "x < 2 powi 1023"
  obtains y where "fl x = Num y" "x * (1 - 1 / 2 ^ 53) \<le> y" "y \<le> x * (1 + 1 / 2 ^ 53)"
proof -
  have "0 < (2::real) powi (- 1022)" by (simp only: zero_less_power_int zero_less_numeral)
  then have x0: "0 < x" using assms(1) by linarith
  then have ax: "\<bar>x\<bar> = x" by simp
  obtain y where y: "fl x = Num y" "2 powi (- 1022) \<le> \<bar>x\<bar> \<longrightarrow> \<bar>y - x\<bar> \<le> \<bar>x\<bar> / 2 ^ 53"
    using fl_bound [of x] assms(2) ax by auto
  have "\<bar>y - x\<bar> \<le> x / 2 ^ 53" using y(2) assms(1) ax by simp
  define d where "d = x / 2 ^ 53"
  have "\<bar>y - x\<bar> \<le> d" by (simp only: d_def) fact
  then have "y - x \<le> d" "x - y \<le> d"
    by (simp_all only: abs_le_iff minus_diff_eq)
  moreover have "x * (1 - 1 / 2 ^ 53) = x - d" "x * (1 + 1 / 2 ^ 53) = x + d"
    by (simp_all add: algebra_simps d_def)
  ultimately have "x * (1 - 1 / 2 ^ 53) \<le> y" "y \<le> x * (1 + 1 / 2 ^ 53)"
    by linarith+
  with y(1) that show thesis by blast
qed

lemma scale_lower:
  fixes p :: real
  assumes "0 < p" "0 \<le> a" "a * p \<le> x" "x * (1 - 1 / 2 ^ 53) \<le> y"
    and "a' \<le> a * (1 - 1 / 2 ^ 53)"
  shows "a' * p \<le> y"
proof -
  have "a' * p \<le> a * (1 - 1 / 2 ^ 53) * p" using assms(1,5) by (intro mult_right_mono) simp_all
  also have "\<dots> = (a * p) * (1 - 1 / 2 ^ 53)" by simp
  also have "\<dots> \<le> x * (1 - 1 / 2 ^ 53)" using assms(3) by (intro mult_right_mono) simp_all
  finally show ?thesis using assms(4) by linarith
qed

lemma scale_upper:
  fixes p :: real
  assumes "0 < p" "x \<le> b * p" "y \<le> x * (1 + 1 / 2 ^ 53)"
    and "b * (1 + 1 / 2 ^ 53) \<le> b'"
  shows "y \<le> b' * p"
proof -
  have "y \<le> x * (1 + 1 / 2 ^ 53)" by fact
  also have "\<dots> \<le> (b * p) * (1 + 1 / 2 ^ 53)" using assms(2) by (intro mult_right_mono) simp_all
  also have "\<dots> = b * (1 + 1 / 2 ^ 53) * p" by simp
  also have "\<dots> \<le> b' * p" using assms(1,4) by (intro mult_right_mono) simp_all
  finally show ?thesis .
qed

lemma normal_range:
  fixes p :: real
  assumes "2 powi (- 1000) \<le> p" "p \<le> 2 powi 1000" "1 / 100 \<le> a" "b \<le> 2"
    "a * p \<le> x" "x \<le> b * p"
  shows "2 powi (- 1022) \<le> x" "x < 2 powi 1023"
proof -
  have "0 < (2::real) powi (- 1000)" by (simp only: zero_less_power_int zero_less_numeral)
  then have p0: "0 < p" using assms(1) by linarith
  have "(2::real) powi (- 1022) = 2 powi (- 1000) * 2 powi (- 22)"
    using power_int_add [of "2::real" "- 1000" "- 22"] by simp
  also have "\<dots> \<le> p * 2 powi (- 22)" using assms(1) by (intro mult_right_mono) simp_all
  also have "\<dots> \<le> p * (1 / 100)" using p0 by (intro mult_left_mono) simp_all
  also have "\<dots> \<le> a * p" using assms(3) p0 by (simp add: mult.commute mult_right_mono)
  finally show "2 powi (- 1022) \<le> x" using assms(5) by linarith
  have "b * p \<le> 2 * p" using assms(4) p0 by (intro mult_right_mono) simp_all
  then have "x \<le> 2 * p" using assms(6) by linarith
  also have "\<dots> \<le> 2 * 2 powi 1000" using assms(2) by simp
  also have "\<dots> = 2 powi (1000 + 1)" by (simp only: pow2_Suc)
  also have "\<dots> < 2 powi 1023" by (simp only: pow2_less_iff)
  finally show "x < 2 powi 1023" .
qed

subsection \<open>The Bollinger block\<close>

text \<open>The roundings of the block at price 126, step by step.\<close>

lemma fl_c102: "fl (51 / 50) = Num (2296835809958953 / 2251799813685248)"
  using fl_eval [of "0" "51 / 50" 4593671619917906] by simp

lemma fl_c98: "fl (49 / 50) = Num (2206763817411543 / 2251799813685248)"
  using fl_eval [of "- 1" "49 / 50" 8827055269646172] by simp

lemma fl_upper: "fl (144700656027414039 / 1125899906842624) = Num (4521895500856689 / 35184372088832)"
  using fl_eval [of "7" "144700656027414039 / 1125899906842624" 4521895500856689] by simp

lemma fl_lower: "fl (139026120496927209 / 1125899906842624) = Num (8689132531057951 / 70368744177664)"
  using fl_eval [of "6" "139026120496927209 / 1125899906842624" 8689132531057951] by simp

lemma fl_num: "fl (177329235327713 / 70368744177664) = Num (177329235327713 / 70368744177664)"
  using fl_eval [of "1" "177329235327713 / 70368744177664" 5674535530486816] by simp

lemma fl_den: "fl (354658470655427 / 70368744177664) = Num (354658470655427 / 70368744177664)"
  using fl_eval [of "2" "354658470655427 / 70368744177664" 5674535530486832] by simp

lemma fl_quot: "fl (177329235327713 / 354658470655427) = Num (9007199254740967 / 18014398509481984)"
  using fl_eval [of "- 2" "177329235327713 / 354658470655427" 9007199254740967] by simp

lemma fl_pos: "fl (225179981368524175 / 4503599627370496) = Num (1759218604441595 / 35184372088832)"
  using fl_eval [of "5" "225179981368524175 / 4503599627370496" 7036874417766380] by simp

lemma fl_dist: "fl (- (5 / 35184372088832)) = Num (- (5 / 35184372088832))"
  using fl_eval [of "- 43" "- (5 / 35184372088832)" 5629499534213120] by simp

lemma fl_strength: "fl (5 / 17592186044416) = Num (5 / 17592186044416)"
  using fl_eval [of "- 42" "5 / 17592186044416" 5629499534213120] by simp
lemmas fl_126 = fl_c102 fl_c98 fl_upper fl_lower fl_num fl_den fl_quot fl_pos fl_dist fl_strength

text \<open>
  The block at a price from \<open>2^-1000\<close> to \<open>2^1000\<close>: no operation leaves the normal range,
  each rounds with a relative error of \<open>2^-53\<close>, and the errors add up to less than
  \<open>10^-10\<close> around the band position 50.
\<close>

lemma bollinger_bounds:
  fixes p :: real
  assumes lo: "2 powi (- 1000) \<le> p" and hi: "p \<le> 2 powi 1000"
  shows "\<exists>v t. bollingerIndicator (Num p) =
           \<lparr> name = ''Bollinger Bands'', val = Num v, signal = HOLD, strength = Num t,
             description = ''Volatility indicator using standard deviations'' \<rparr> \<and>
           \<bar>v - 50\<bar> \<le> 1 / 10 ^ 10 \<and> 0 \<le> t \<and> t \<le> 1 / 10 ^ 10"
proof -
  have "0 < (2::real) powi (- 1000)" by (simp only: zero_less_power_int zero_less_numeral)
  then have p0: "0 < p" using lo by linarith
  define c98 :: real where "c98 = 2206763817411543 / 2251799813685248"
  define c102 :: real where "c102 = 2296835809958953 / 2251799813685248"
  have f98: "fl 0.98 = Num c98" by (simp add: fl_c98 c98_def)
  have f102: "fl 1.02 = Num c102" by (simp add: fl_c102 c102_def)
  have "2 powi (- 1022) \<le> p * c98" "p * c98 < 2 powi 1023"
    by (rule normal_range [OF lo hi, of c98 c98]; simp add: c98_def)+
  then obtain l where l: "fl (p * c98) = Num l" "p * c98 * (1 - 1 / 2 ^ 53) \<le> l"
      "l \<le> p * c98 * (1 + 1 / 2 ^ 53)"
    by (rule fl_normal)
  have l1: "(98 / 100 - 1 / 10 ^ 15) * p \<le> l"
    by (rule scale_lower [OF p0 _ _ l(2), of c98]) (simp_all add: c98_def)
  have l2: "l \<le> (98 / 100 + 1 / 10 ^ 15) * p"
    by (rule scale_upper [OF p0 _ l(3), of c98]) (simp_all add: c98_def)
  have "2 powi (- 1022) \<le> p * c102" "p * c102 < 2 powi 1023"
    by (rule normal_range [OF lo hi, of c102 c102]; simp add: c102_def)+
  then obtain h where h: "fl (p * c102) = Num h" "p * c102 * (1 - 1 / 2 ^ 53) \<le> h"
      "h \<le> p * c102 * (1 + 1 / 2 ^ 53)"
    by (rule fl_normal)
  have h1: "(102 / 100 - 1 / 10 ^ 15) * p \<le> h"
    by (rule scale_lower [OF p0 _ _ h(2), of c102]) (simp_all add: c102_def)
  have h2: "h \<le> (102 / 100 + 1 / 10 ^ 15) * p"
    by (rule scale_upper [OF p0 _ h(3), of c102]) (simp_all add: c102_def)
  have x3: "(2 / 100 - 1 / 10 ^ 15) * p \<le> p - l" "p - l \<le> (2 / 100 + 1 / 10 ^ 15) * p"
    using l1 l2 by (simp_all add: algebra_simps)
  have "2 powi (- 1022) \<le> p - l" "p - l < 2 powi 1023"
    by (rule normal_range [OF lo hi _ _ x3]; simp)+
  then obtain n where n: "fl (p - l) = Num n" "(p - l) * (1 - 1 / 2 ^ 53) \<le> n"
      "n \<le> (p - l) * (1 + 1 / 2 ^ 53)"
    by (rule fl_normal)
  have n1: "(2 / 100 - 2 / 10 ^ 15) * p \<le> n"
    by (rule scale_lower [OF p0 _ x3(1) n(2)]) simp_all
  have n2: "n \<le> (2 / 100 + 2 / 10 ^ 15) * p"
    by (rule scale_upper [OF p0 x3(2) n(3)]) simp_all
  have x4: "(4 / 100 - 2 / 10 ^ 15) * p \<le> h - l" "h - l \<le> (4 / 100 + 2 / 10 ^ 15) * p"
    using l1 l2 h1 h2 by (simp_all add: algebra_simps)
  have "2 powi (- 1022) \<le> h - l" "h - l < 2 powi 1023"
    by (rule normal_range [OF lo hi _ _ x4]; simp)+
  then obtain d where d: "fl (h - l) = Num d" "(h - l) * (1 - 1 / 2 ^ 53) \<le> d"
      "d \<le> (h - l) * (1 + 1 / 2 ^ 53)"
    by (rule fl_normal)
  have d1: "(4 / 100 - 3 / 10 ^ 15) * p \<le> d"
    by (rule scale_lower [OF p0 _ x4(1) d(2)]) simp_all
  have d2: "d \<le> (4 / 100 + 3 / 10 ^ 15) * p"
    by (rule scale_upper [OF p0 x4(2) d(3)]) simp_all
  have dpos: "0 < d"
  proof -
    have "0 < (4 / 100 - 3 / 10 ^ 15) * p" using p0 by simp
    then show ?thesis using d1 by linarith
  qed
  have npos: "0 \<le> n"
  proof -
    have "0 \<le> (2 / 100 - 2 / 10 ^ 15) * p" using p0 by simp
    then show ?thesis using n1 by linarith
  qed
  have "((2 / 100 - 2 / 10 ^ 15) * p) / ((4 / 100 + 3 / 10 ^ 15) * p) \<le> n / d"
    using npos n1 d2 dpos by (intro frac_le)
  then have x5a: "(1 / 2 - 1 / 10 ^ 13) * 1 \<le> n / d" using p0 by simp
  have "n / d \<le> ((2 / 100 + 2 / 10 ^ 15) * p) / ((4 / 100 - 3 / 10 ^ 15) * p)"
  proof (intro frac_le)
    show "0 \<le> (2 / 100 + 2 / 10 ^ 15) * p" using p0 by simp
    show "0 < (4 / 100 - 3 / 10 ^ 15) * p" using p0 by simp
  qed (use n2 d1 in simp_all)
  then have x5b: "n / d \<le> (1 / 2 + 1 / 10 ^ 13) * 1" using p0 by simp
  have one: "2 powi (- 1000) \<le> (1::real)" "(1::real) \<le> 2 powi 1000"
    by (simp_all add: power_int_minus field_simps)
  have "2 powi (- 1022) \<le> n / d" "n / d < 2 powi 1023"
    by (rule normal_range [OF one _ _ x5a x5b]; simp)+
  then obtain q where q: "fl (n / d) = Num q" "n / d * (1 - 1 / 2 ^ 53) \<le> q"
      "q \<le> n / d * (1 + 1 / 2 ^ 53)"
    by (rule fl_normal)
  have q1: "(1 / 2 - 2 / 10 ^ 13) * 1 \<le> q"
    by (rule scale_lower [OF _ _ x5a q(2)]) simp_all
  have q2: "q \<le> (1 / 2 + 2 / 10 ^ 13) * 1"
    by (rule scale_upper [OF _ x5b q(3)]) simp_all
  have x6: "(50 - 2 / 10 ^ 11) * 1 \<le> q * 100" "q * 100 \<le> (50 + 2 / 10 ^ 11) * 1"
    using q1 q2 by simp_all
  have x6': "1 * 32 \<le> q * 100" "q * 100 \<le> 2 * (32::real)"
    using x6 by simp_all
  have t32: "2 powi (- 1000) \<le> (32::real)" "(32::real) \<le> 2 powi 1000"
    using one by (simp_all add: power_int_minus field_simps)
  have "2 powi (- 1022) \<le> q * 100" "q * 100 < 2 powi 1023"
    by (rule normal_range [OF t32 _ _ x6']; simp)+
  then obtain v where v: "fl (q * 100) = Num v" "q * 100 * (1 - 1 / 2 ^ 53) \<le> v"
      "v \<le> q * 100 * (1 + 1 / 2 ^ 53)"
    by (rule fl_normal)
  have v1: "(50 - 3 / 10 ^ 11) * 1 \<le> v"
    by (rule scale_lower [OF _ _ x6(1) v(2)]) simp_all
  have v2: "v \<le> (50 + 3 / 10 ^ 11) * 1"
    by (rule scale_upper [OF _ x6(2) v(3)]) simp_all
  have "v - 50 \<le> 3 / 100000000000" "50 - v \<le> 3 / 100000000000"
    using v1 v2 by simp_all
  then have vb: "\<bar>v - 50\<bar> \<le> 3 / 100000000000" by linarith
  have tiny: "(2::real) powi (- 1075) \<le> 1 / 1000000000000"
    by (simp add: power_int_minus field_simps)
  have big: "(1::real) \<le> 2 powi 1023" by simp
  have "\<bar>v - 50\<bar> < 1" using vb by linarith
  then have "\<bar>v - 50\<bar> < 2 powi 1023" by (rule less_le_trans) (rule big)
  then obtain w where w: "fl (v - 50) = Num w"
      "\<bar>w - (v - 50)\<bar> \<le> \<bar>v - 50\<bar> / 2 ^ 53 + 2 powi (- 1075)"
    using fl_bound [of "v - 50"] by blast
  define e1 where "e1 = \<bar>v - 50\<bar> / 2 ^ 53 + 2 powi (- 1075)"
  have "\<bar>v - 50\<bar> / 2 ^ 53 \<le> (3 / 100000000000) / 2 ^ 53"
    using vb by (rule divide_right_mono) simp
  also have "\<dots> \<le> 1 / 1000000000000" by simp
  finally have "e1 \<le> 1 / 1000000000000 + 1 / 1000000000000"
    unfolding e1_def using tiny by (rule add_mono)
  then have e1: "e1 \<le> 1 / 100000000000" by simp
  have "\<bar>w - (v - 50)\<bar> \<le> e1" unfolding e1_def by (rule w(2))
  then have "\<bar>w\<bar> \<le> \<bar>v - 50\<bar> + e1" by linarith
  then have wb: "\<bar>w\<bar> \<le> 4 / 100000000000" using vb e1 by linarith
  have w2: "\<bar>\<bar>w\<bar> * 2\<bar> = \<bar>w\<bar> * 2" by simp
  have "\<bar>w\<bar> * 2 < 1" using wb by linarith
  then have "\<bar>\<bar>w\<bar> * 2\<bar> < 2 powi 1023" unfolding w2 by (rule less_le_trans) (rule big)
  then obtain t where t: "fl (\<bar>w\<bar> * 2) = Num t" "0 \<le> \<bar>w\<bar> * 2 \<longrightarrow> 0 \<le> t"
      "\<bar>t - \<bar>w\<bar> * 2\<bar> \<le> \<bar>\<bar>w\<bar> * 2\<bar> / 2 ^ 53 + 2 powi (- 1075)"
    using fl_bound [of "\<bar>w\<bar> * 2"] by blast
  define e2 where "e2 = \<bar>\<bar>w\<bar> * 2\<bar> / 2 ^ 53 + 2 powi (- 1075)"
  have "\<bar>w\<bar> * 2 \<le> 8 / 100000000000" using wb by linarith
  then have "\<bar>\<bar>w\<bar> * 2\<bar> / 2 ^ 53 \<le> (8 / 100000000000) / 2 ^ 53"
    unfolding w2 by (rule divide_right_mono) simp
  also have "\<dots> \<le> 1 / 1000000000000" by simp
  finally have "e2 \<le> 1 / 1000000000000 + 1 / 1000000000000"
    unfolding e2_def using tiny by (rule add_mono)
  then have e2: "e2 \<le> 1 / 100000000000" by simp
  have "\<bar>t - \<bar>w\<bar> * 2\<bar> \<le> e2" unfolding e2_def by (rule t(3))
  then have "t \<le> \<bar>w\<bar> * 2 + e2" by linarith
  then have "t \<le> 1 / 10000000000" using wb e2 by linarith
  then have tb: "0 \<le> t" "t \<le> 1 / 10 ^ 10" using t(2) by simp_all
  have U: "dbl_mul (Num p) (Num c102) = Num h" by (simp only: dbl_mul_Num h(1))
  have L: "dbl_mul (Num p) (Num c98) = Num l" by (simp only: dbl_mul_Num l(1))
  have N: "dbl_sub (Num p) (Num l) = Num n" by (simp only: dbl_sub_Num n(1))
  have D: "dbl_sub (Num h) (Num l) = Num d" by (simp only: dbl_sub_Num d(1))
  have Q: "dbl_div (Num n) (Num d) = Num q" using dpos by (simp add: dbl_div_Num q(1))
  have B: "dbl_mul (Num q) (Num 100) = Num v" by (simp only: dbl_mul_Num v(1))
  have W: "dbl_sub (Num v) (Num 50) = Num w" by (simp only: dbl_sub_Num w(1))
  have T: "dbl_mul (Num \<bar>w\<bar>) (Num 2) = Num t" by (simp only: dbl_mul_Num t(1))
  have sg: "\<not> v < 20" "\<not> 80 < v" using vb by linarith+
  have "bollingerIndicator (Num p) =
           \<lparr> name = ''Bollinger Bands'', val = Num v, signal = HOLD, strength = Num t,
             description = ''Volatility indicator using standard deviations'' \<rparr>"
    unfolding bollingerIndicator_def Let_def f98 f102 U L N D Q B W js_abs.simps T
    using sg by (simp add: js_gt_def)
  moreover have "\<bar>v - 50\<bar> \<le> 1 / 10000000000" using vb by linarith
  then have "\<bar>v - 50\<bar> \<le> 1 / 10 ^ 10" by simp
  ultimately show ?thesis using tb by blast
qed

text \<open>The price that \<^verbatim>\<open>generateSignalData\<close> passes, from its first draw.\<close>

lemma signalData_price:
  "currentPrice (fst (generateSignalData g)) = Num (100 + g 0 * 400) \<and>
   indicators (fst (generateSignalData g)) ! 3 = bollingerIndicator (Num (100 + g 0 * 400))"
  by (simp add: generateSignalData_def calculateTechnicalIndicators_def Math_random_def Let_def
        split: prod.splits)

lemma reachable_range:
  fixes r :: real
  assumes "0 \<le> r" "r < 1"
  shows "2 powi (- 1000) \<le> 100 + r * 400" "100 + r * 400 \<le> 2 powi 1000"
proof -
  have "(2::real) powi (- 1000) \<le> 1" by (simp add: power_int_minus field_simps)
  then show "2 powi (- 1000) \<le> 100 + r * 400" using assms(1) by linarith
  have "(500::real) \<le> 2 powi 1000" by simp
  then show "100 + r * 400 \<le> 2 powi 1000" using assms(2) by linarith
qed

section \<open>The decision rule\<close>

text \<open>
  Claim C1. For every list of indicators and every sentiment: when the total BUY strength
  (the summed strength of the BUY indicators plus the contribution of a positive
  sentiment) is strictly greater than the total SELL strength and at least two
  indicators signal BUY, the action is BUY; when the total SELL strength is strictly
  greater than the total BUY strength and at least two indicators signal SELL, the action
  is SELL. The comparisons are those of JavaScript, so the rule holds for non-finite
  strengths as well.
\<close>

theorem buy_sell_rule:
  "(js_gt (totalBuyStrength inds s) (totalSellStrength inds s) \<and> 2 \<le> buySignals inds
      \<longrightarrow> action (decide p inds s g) = BUY) \<and>
   (js_gt (totalSellStrength inds s) (totalBuyStrength inds s) \<and> 2 \<le> sellSignals inds
      \<longrightarrow> action (decide p inds s g) = SELL)"
  using js_lt_asym [of "totalSellStrength inds s" "totalBuyStrength inds s"]
  by (auto simp add: action_decide chooseAction_action js_gt_def)

theorem buy_sell_rule_witness:
  "js_gt (totalBuyStrength buyScenario (Num 0.2)) (totalSellStrength buyScenario (Num 0.2)) \<and>
   2 \<le> buySignals buyScenario \<and>
   action (decide (Num 100) buyScenario (Num 0.2) half) = BUY \<and>
   js_gt (totalSellStrength sellScenario (Num (- 0.2)))
         (totalBuyStrength sellScenario (Num (- 0.2))) \<and>
   2 \<le> sellSignals sellScenario \<and>
   action (decide (Num 100) sellScenario (Num (- 0.2)) half) = SELL"
  using buy_sell_rule [of buyScenario "Num 0.2" "Num 100" half]
    buy_sell_rule [of sellScenario "Num (- 0.2)" "Num 100" half]
  by (simp add: totalBuyStrength_def totalSellStrength_def buyStrength_def sellStrength_def
        buySignals_def sellSignals_def sentimentWeight_def js_gt_def)

text \<open>
  Claim C2. When neither the BUY condition nor the SELL condition holds, the action is
  HOLD. In particular a single BUY indicator is not enough: with exactly one BUY
  indicator the action is HOLD even when the total BUY strength strictly dominates.
\<close>

theorem hold_rule:
  "(\<not> (js_gt (totalBuyStrength inds s) (totalSellStrength inds s) \<and> 2 \<le> buySignals inds) \<and>
    \<not> (js_gt (totalSellStrength inds s) (totalBuyStrength inds s) \<and> 2 \<le> sellSignals inds)
      \<longrightarrow> action (decide p inds s g) = HOLD) \<and>
   (buySignals inds = 1 \<and> js_gt (totalBuyStrength inds s) (totalSellStrength inds s)
      \<longrightarrow> action (decide p inds s g) = HOLD)"
  using js_lt_asym [of "totalSellStrength inds s" "totalBuyStrength inds s"]
  by (auto simp add: action_decide chooseAction_action js_gt_def)

theorem hold_rule_witness:
  "\<not> (js_gt (totalBuyStrength holdScenario (Num 0)) (totalSellStrength holdScenario (Num 0)) \<and>
       2 \<le> buySignals holdScenario) \<and>
   \<not> (js_gt (totalSellStrength holdScenario (Num 0)) (totalBuyStrength holdScenario (Num 0)) \<and>
       2 \<le> sellSignals holdScenario) \<and>
   action (decide (Num 100) holdScenario (Num 0) half) = HOLD \<and>
   buySignals oneBuyScenario = 1 \<and>
   js_gt (totalBuyStrength oneBuyScenario (Num 0.2))
         (totalSellStrength oneBuyScenario (Num 0.2)) \<and>
   action (decide (Num 100) oneBuyScenario (Num 0.2) half) = HOLD"
  using hold_rule [of holdScenario "Num 0" "Num 100" half]
    hold_rule [of oneBuyScenario "Num 0.2" "Num 100" half]
  by (simp add: totalBuyStrength_def totalSellStrength_def buyStrength_def sellStrength_def
        buySignals_def sellSignals_def sentimentWeight_def js_gt_def)

section \<open>The risk/reward ratio\<close>

text \<open>
  Claim C3, as the code has it. For a BUY or SELL decision at a finite price other than
  zero, with the volatility draw in \<open>[0, 1)\<close>, the entry price differs from the stop loss
  and \<open>riskReward\<close> is the finite, non-negative number
  \<open>|targetPrice - entryPrice| / |entryPrice - stopLoss|\<close>. The division has no guard: for
  every HOLD decision, at any price, the entry price equals the stop loss and
  \<open>riskReward\<close> is the result of \<^verbatim>\<open>0/0\<close>, that is \<^verbatim>\<open>NaN\<close>.
\<close>

theorem riskReward_cases:
  "(0 \<le> g 0 \<and> g 0 < 1 \<and> p \<noteq> 0 \<and> action (decide (Num p) inds s g) \<noteq> HOLD \<longrightarrow>
      (\<exists>e t l. entryPrice (decide (Num p) inds s g) = Num e \<and>
               targetPrice (decide (Num p) inds s g) = Num t \<and>
               stopLoss (decide (Num p) inds s g) = Num l \<and> e \<noteq> l \<and>
               riskReward (decide (Num p) inds s g) = Num (\<bar>t - e\<bar> / \<bar>e - l\<bar>) \<and>
               0 \<le> \<bar>t - e\<bar> / \<bar>e - l\<bar>)) \<and>
   (action (decide q inds s g) = HOLD \<longrightarrow>
      entryPrice (decide q inds s g) = stopLoss (decide q inds s g) \<and>
      riskReward (decide q inds s g) = NaN)"
proof (intro conjI impI)
  assume h: "0 \<le> g 0 \<and> g 0 < 1 \<and> p \<noteq> 0 \<and> action (decide (Num p) inds s g) \<noteq> HOLD"
  let ?d = "decide (Num p) inds s g"
  define v where "v = 0.02 + g 0 * 0.03"
  have v1: "0.02 \<le> v" using h by (simp add: v_def)
  have vo: "volatilityOf (g 0) = Num v" by (simp add: volatilityOf_Num v_def)
  have nn: "\<And>e t l::real. 0 \<le> \<bar>t - e\<bar> / \<bar>e - l\<bar>" by simp
  consider (buy) "action ?d = BUY" | (sell) "action ?d = SELL"
    using h by (cases "action ?d") simp_all
  then show "\<exists>e t l. entryPrice ?d = Num e \<and> targetPrice ?d = Num t \<and> stopLoss ?d = Num l \<and>
      e \<noteq> l \<and> riskReward ?d = Num (\<bar>t - e\<bar> / \<bar>e - l\<bar>) \<and> 0 \<le> \<bar>t - e\<bar> / \<bar>e - l\<bar>"
  proof cases
    case buy
    have lv: "entryPrice ?d = Num (p * 0.995)" "targetPrice ?d = Num (p * (1 + 2 * v))"
             "stopLoss ?d = Num (p * (1 - v))"
      using decide_levels [of "Num p" inds s g] by (simp_all add: buy vo priceLevels_BUY)
    have ne: "p * 0.995 \<noteq> p * (1 - v)" using h v1 by simp
    show ?thesis using lv ne riskReward_real [OF lv ne] nn by blast
  next
    case sell
    have lv: "entryPrice ?d = Num (p * 1.005)" "targetPrice ?d = Num (p * (1 - 2 * v))"
             "stopLoss ?d = Num (p * (1 + v))"
      using decide_levels [of "Num p" inds s g] by (simp_all add: sell vo priceLevels_SELL)
    have ne: "p * 1.005 \<noteq> p * (1 + v)" using h v1 by simp
    show ?thesis using lv ne riskReward_real [OF lv ne] nn by blast
  qed
next
  assume h: "action (decide q inds s g) = HOLD"
  have lv: "entryPrice (decide q inds s g) = q" "targetPrice (decide q inds s g) = q"
           "stopLoss (decide q inds s g) = q"
    using decide_levels [of q inds s g] by (simp_all add: h priceLevels_def)
  show "entryPrice (decide q inds s g) = stopLoss (decide q inds s g)" by (simp add: lv)
  have "riskReward (decide q inds s g) = js_abs (js_div (js_sub q q) (js_sub q q))"
    by (simp add: decide_riskReward lv)
  also have "\<dots> = NaN" by (cases q) (simp_all add: js_sub_def)
  finally show "riskReward (decide q inds s g) = NaN" .
qed

theorem riskReward_cases_witness:
  "0 \<le> half 0 \<and> half 0 < 1 \<and> (100::real) \<noteq> 0 \<and>
   action (decide (Num 100) buyScenario (Num 0.2) half) \<noteq> HOLD \<and>
   (\<exists>e t l. entryPrice (decide (Num 100) buyScenario (Num 0.2) half) = Num e \<and>
            targetPrice (decide (Num 100) buyScenario (Num 0.2) half) = Num t \<and>
            stopLoss (decide (Num 100) buyScenario (Num 0.2) half) = Num l \<and> e \<noteq> l \<and>
            riskReward (decide (Num 100) buyScenario (Num 0.2) half)
              = Num (\<bar>t - e\<bar> / \<bar>e - l\<bar>) \<and>
            0 \<le> \<bar>t - e\<bar> / \<bar>e - l\<bar>) \<and>
   action (decide (Num 100) oneBuyScenario (Num 0.2) half) = HOLD \<and>
   riskReward (decide (Num 100) oneBuyScenario (Num 0.2) half) = NaN"
proof -
  have b: "action (decide (Num 100) buyScenario (Num 0.2) half) = BUY"
    by (simp add: eval_defs)
  have h: "action (decide (Num 100) oneBuyScenario (Num 0.2) half) = HOLD"
    by (simp add: eval_defs)
  show ?thesis
    using riskReward_cases [of half 100 buyScenario "Num 0.2" "Num 100"]
      riskReward_cases [of half 100 oneBuyScenario "Num 0.2" "Num 100"] b h
    by simp
qed

text \<open>
  The claim as it was stated, that the ratio of every decision is a defined non-negative
  number because the division is guarded, fails on the scenario of five HOLD indicators
  with sentiment 0 at price 100: the three levels are 100 and the ratio is \<^verbatim>\<open>NaN\<close>.
\<close>

theorem hold_riskReward_nan:
  "action (decide (Num 100) holdScenario (Num 0) half) = HOLD \<and>
   entryPrice (decide (Num 100) holdScenario (Num 0) half) = Num 100 \<and>
   targetPrice (decide (Num 100) holdScenario (Num 0) half) = Num 100 \<and>
   stopLoss (decide (Num 100) holdScenario (Num 0) half) = Num 100 \<and>
   riskReward (decide (Num 100) holdScenario (Num 0) half) = NaN"
  by (simp add: eval_defs)

section \<open>Price levels\<close>

text \<open>
  Claim C4. For every BUY decision at a positive price, with the volatility \<open>v\<close> sampled
  as \<^verbatim>\<open>0.02 + Math.random() * 0.03\<close> from a draw in \<open>[0, 1)\<close> (so \<open>v\<close> is strictly
  greater than 0), the levels are \<open>entryPrice = price * 0.995\<close>,
  \<open>targetPrice = price * (1 + 2 * v)\<close> and \<open>stopLoss = price * (1 - v)\<close>, and
  \<open>targetPrice > entryPrice > stopLoss\<close>. The second inequality rests on \<open>v > 0.005\<close>,
  which every sampled volatility satisfies.
\<close>

theorem buy_levels:
  assumes r: "0 \<le> g 0" "g 0 < 1" and p: "0 < p"
    and v: "volatilityOf (g 0) = Num v"
    and act: "action (decide (Num p) inds s g) = BUY"
  shows "0 < v \<and>
         entryPrice (decide (Num p) inds s g) = Num (p * 0.995) \<and>
         targetPrice (decide (Num p) inds s g) = Num (p * (1 + 2 * v)) \<and>
         stopLoss (decide (Num p) inds s g) = Num (p * (1 - v)) \<and>
         js_gt (targetPrice (decide (Num p) inds s g)) (entryPrice (decide (Num p) inds s g)) \<and>
         js_gt (entryPrice (decide (Num p) inds s g)) (stopLoss (decide (Num p) inds s g))"
proof -
  have vv: "v = 0.02 + g 0 * 0.03" using v by (simp add: volatilityOf_Num)
  have v1: "0.02 \<le> v" using r vv by simp
  have lv: "entryPrice (decide (Num p) inds s g) = Num (p * 0.995)"
           "targetPrice (decide (Num p) inds s g) = Num (p * (1 + 2 * v))"
           "stopLoss (decide (Num p) inds s g) = Num (p * (1 - v))"
    using decide_levels [of "Num p" inds s g] by (simp_all add: act v priceLevels_BUY)
  have "p * 0.995 < p * (1 + 2 * v)" using p v1 by (intro mult_strict_left_mono) simp_all
  moreover have "p * (1 - v) < p * 0.995" using p v1 by (intro mult_strict_left_mono) simp_all
  ultimately show ?thesis using v1 by (simp add: lv js_gt_def)
qed

theorem buy_levels_witness:
  "0 \<le> half 0 \<and> half 0 < 1 \<and> (0::real) < 100 \<and> volatilityOf (half 0) = Num 0.035 \<and>
   action (decide (Num 100) buyScenario (Num 0.2) half) = BUY \<and>
   entryPrice (decide (Num 100) buyScenario (Num 0.2) half) = Num 99.5 \<and>
   targetPrice (decide (Num 100) buyScenario (Num 0.2) half) = Num 107 \<and>
   stopLoss (decide (Num 100) buyScenario (Num 0.2) half) = Num 96.5 \<and>
   js_gt (targetPrice (decide (Num 100) buyScenario (Num 0.2) half))
         (entryPrice (decide (Num 100) buyScenario (Num 0.2) half)) \<and>
   js_gt (entryPrice (decide (Num 100) buyScenario (Num 0.2) half))
         (stopLoss (decide (Num 100) buyScenario (Num 0.2) half))"
proof -
  have v: "volatilityOf (half 0) = Num 0.035" by (simp add: volatilityOf_def)
  have b: "action (decide (Num 100) buyScenario (Num 0.2) half) = BUY"
    by (simp add: eval_defs)
  show ?thesis
    using buy_levels [of half 100 "0.035" buyScenario "Num 0.2", OF _ _ _ v b] v b 
    by (simp add: js_gt_def)
qed

text \<open>
  Claim C5. For every SELL decision at a positive price, with the volatility \<open>v\<close> in the
  configured range \<open>[0.02, 0.05]\<close> (a draw in \<open>[0, 1]\<close>), the levels are
  \<open>entryPrice = price * 1.005\<close>, \<open>targetPrice = price * (1 - 2 * v)\<close> and
  \<open>stopLoss = price * (1 + v)\<close>, and \<open>stopLoss > entryPrice > targetPrice\<close>.
\<close>

theorem sell_levels:
  assumes r: "0 \<le> g 0" "g 0 \<le> 1" and p: "0 < p"
    and v: "volatilityOf (g 0) = Num v"
    and act: "action (decide (Num p) inds s g) = SELL"
  shows "0.02 \<le> v \<and> v \<le> 0.05 \<and>
         entryPrice (decide (Num p) inds s g) = Num (p * 1.005) \<and>
         targetPrice (decide (Num p) inds s g) = Num (p * (1 - 2 * v)) \<and>
         stopLoss (decide (Num p) inds s g) = Num (p * (1 + v)) \<and>
         js_gt (stopLoss (decide (Num p) inds s g)) (entryPrice (decide (Num p) inds s g)) \<and>
         js_gt (entryPrice (decide (Num p) inds s g)) (targetPrice (decide (Num p) inds s g))"
proof -
  have vv: "v = 0.02 + g 0 * 0.03" using v by (simp add: volatilityOf_Num)
  have v1: "0.02 \<le> v" "v \<le> 0.05" using r vv by simp_all
  have lv: "entryPrice (decide (Num p) inds s g) = Num (p * 1.005)"
           "targetPrice (decide (Num p) inds s g) = Num (p * (1 - 2 * v))"
           "stopLoss (decide (Num p) inds s g) = Num (p * (1 + v))"
    using decide_levels [of "Num p" inds s g] by (simp_all add: act v priceLevels_SELL)
  have "p * 1.005 < p * (1 + v)" using p v1 by (intro mult_strict_left_mono) simp_all
  moreover have "p * (1 - 2 * v) < p * 1.005" using p v1 by (intro mult_strict_left_mono) simp_all
  ultimately show ?thesis using v1 by (simp add: lv js_gt_def)
qed

theorem sell_levels_witness:
  "0 \<le> half 0 \<and> half 0 \<le> 1 \<and> (0::real) < 100 \<and> volatilityOf (half 0) = Num 0.035 \<and>
   action (decide (Num 100) sellScenario (Num (- 0.2)) half) = SELL \<and>
   entryPrice (decide (Num 100) sellScenario (Num (- 0.2)) half) = Num 100.5 \<and>
   targetPrice (decide (Num 100) sellScenario (Num (- 0.2)) half) = Num 93 \<and>
   stopLoss (decide (Num 100) sellScenario (Num (- 0.2)) half) = Num 103.5 \<and>
   js_gt (stopLoss (decide (Num 100) sellScenario (Num (- 0.2)) half))
         (entryPrice (decide (Num 100) sellScenario (Num (- 0.2)) half)) \<and>
   js_gt (entryPrice (decide (Num 100) sellScenario (Num (- 0.2)) half))
         (targetPrice (decide (Num 100) sellScenario (Num (- 0.2)) half))"
proof -
  have v: "volatilityOf (half 0) = Num 0.035" by (simp add: volatilityOf_def)
  have b: "action (decide (Num 100) sellScenario (Num (- 0.2)) half) = SELL"
    by (simp add: eval_defs)
  show ?thesis
    using sell_levels [of half 100 "0.035" sellScenario "Num (- 0.2)", OF _ _ _ v b] v b 
    by (simp add: js_gt_def)
qed

text \<open>
  Claim C9. For every HOLD decision the three price levels are the input price:
  \<open>entryPrice = targetPrice = stopLoss = price\<close>. In particular, when every indicator
  signals HOLD (the five of the scenario, at sentiment 0 or any other), the action is HOLD
  and the three levels are the price.
\<close>

theorem hold_levels:
  "(action (decide p inds s g) = HOLD \<longrightarrow>
      entryPrice (decide p inds s g) = p \<and> targetPrice (decide p inds s g) = p \<and>
      stopLoss (decide p inds s g) = p) \<and>
   (list_all (\<lambda>i. signal i = HOLD) inds \<longrightarrow>
      action (decide p inds s g) = HOLD \<and>
      entryPrice (decide p inds s g) = p \<and> targetPrice (decide p inds s g) = p \<and>
      stopLoss (decide p inds s g) = p)"
proof -
  have a: "action (decide p inds s g) = HOLD \<Longrightarrow>
      entryPrice (decide p inds s g) = p \<and> targetPrice (decide p inds s g) = p \<and>
      stopLoss (decide p inds s g) = p"
    using decide_levels [of p inds s g] by (simp add: priceLevels_def)
  have b: "list_all (\<lambda>i. signal i = HOLD) inds \<Longrightarrow> action (decide p inds s g) = HOLD"
    by (simp add: action_decide chooseAction_action all_hold_counts list_all_iff)
  show ?thesis using a b by blast
qed

theorem hold_levels_witness:
  "action (decide (Num 100) oneBuyScenario (Num 0.2) half) = HOLD \<and>
   entryPrice (decide (Num 100) oneBuyScenario (Num 0.2) half) = Num 100 \<and>
   targetPrice (decide (Num 100) oneBuyScenario (Num 0.2) half) = Num 100 \<and>
   stopLoss (decide (Num 100) oneBuyScenario (Num 0.2) half) = Num 100 \<and>
   list_all (\<lambda>i. signal i = HOLD) holdScenario \<and> length holdScenario = 5 \<and>
   action (decide (Num 100) holdScenario (Num 0) half) = HOLD \<and>
   entryPrice (decide (Num 100) holdScenario (Num 0) half) = Num 100 \<and>
   targetPrice (decide (Num 100) holdScenario (Num 0) half) = Num 100 \<and>
   stopLoss (decide (Num 100) holdScenario (Num 0) half) = Num 100"
proof -
  have a: "action (decide (Num 100) oneBuyScenario (Num 0.2) half) = HOLD"
    by (simp add: eval_defs)
  have h: "list_all (\<lambda>i. signal i = HOLD) holdScenario" by simp
  show ?thesis
    using hold_levels [of "Num 100" oneBuyScenario "Num 0.2" half]
      hold_levels [of "Num 100" holdScenario "Num 0" half] a h
    by simp
qed

section \<open>Confidence\<close>

text \<open>
  Claim C6. For every decision on indicators whose strengths are finite and not negative,
  at a finite sentiment and with the draw in \<open>[0, 1)\<close>: the totals are finite numbers
  \<open>b\<close> (BUY) and \<open>l\<close> (SELL); the confidence of a BUY is
  \<open>min(95, b / (b + l) * 100)\<close>, that of a SELL is \<open>min(95, l / (b + l) * 100)\<close>, with
  \<open>b + l > 0\<close>, and both lie in \<open>[0, 95]\<close>; the confidence of a HOLD lies in
  \<open>[50, 70)\<close>, hence in \<open>[50, 70]\<close>.
\<close>

theorem confidence_range:
  assumes st: "list_all (\<lambda>i. nonneg (strength i)) inds" and r: "0 \<le> g 0" "g 0 < 1"
  shows "\<exists>b l c. totalBuyStrength inds (Num s) = Num b \<and>
                 totalSellStrength inds (Num s) = Num l \<and>
                 confidence (decide p inds (Num s) g) = Num c \<and>
                 (action (decide p inds (Num s) g) = BUY \<longrightarrow>
                    0 < b + l \<and> c = min 95 (b / (b + l) * 100) \<and> 0 \<le> c \<and> c \<le> 95) \<and>
                 (action (decide p inds (Num s) g) = SELL \<longrightarrow>
                    0 < b + l \<and> c = min 95 (l / (b + l) * 100) \<and> 0 \<le> c \<and> c \<le> 95) \<and>
                 (action (decide p inds (Num s) g) = HOLD \<longrightarrow> 50 \<le> c \<and> c < 70)"
proof -
  obtain b l where t: "totalBuyStrength inds (Num s) = Num b"
      "totalSellStrength inds (Num s) = Num l" and nn: "0 \<le> b" "0 \<le> l"
    using totals_nonneg [of inds s] st by (auto simp add: list_all_iff)
  let ?buy = "l < b \<and> 2 \<le> buySignals inds"
  let ?sell = "b < l \<and> 2 \<le> sellSignals inds"
  have act: "action (decide p inds (Num s) g) =
       (if ?buy then BUY else if ?sell then SELL else HOLD)"
    by (simp add: action_decide chooseAction_action t js_gt_def)
  have conf: "confidence (decide p inds (Num s) g) =
       (if ?buy then Num (min 95 (b / (b + l) * 100))
        else if ?sell then Num (min 95 (l / (b + l) * 100))
        else Num (50 + g 0 * 20))"
    using nn
    by (auto simp add: decide_confidence chooseAction_def t js_gt_def Let_def Math_random_def
          min_def split: prod.splits)
  have q: "0 < b + l \<Longrightarrow> 0 \<le> b / (b + l) * 100 \<and> 0 \<le> l / (b + l) * 100"
    using nn by simp
  show ?thesis
    apply (rule exI [of _ b], rule exI [of _ l])
    using nn r q by (auto simp add: t act conf)
qed

theorem confidence_range_witness:
  "list_all (\<lambda>i. nonneg (strength i)) buyScenario \<and> 0 \<le> half 0 \<and> half 0 < 1 \<and>
   action (decide (Num 100) buyScenario (Num 0.2) half) = BUY \<and>
   confidence (decide (Num 100) buyScenario (Num 0.2) half)
     = Num (min 95 (74 / (74 + 10) * 100)) \<and>
   list_all (\<lambda>i. nonneg (strength i)) sellScenario \<and>
   action (decide (Num 100) sellScenario (Num (- 0.2)) half) = SELL \<and>
   confidence (decide (Num 100) sellScenario (Num (- 0.2)) half)
     = Num (min 95 (74 / (10 + 74) * 100)) \<and>
   list_all (\<lambda>i. nonneg (strength i)) holdScenario \<and>
   action (decide (Num 100) holdScenario (Num 0) half) = HOLD \<and>
   confidence (decide (Num 100) holdScenario (Num 0) half) = Num 60"
proof -
  have n: "list_all (\<lambda>i. nonneg (strength i)) buyScenario"
    "list_all (\<lambda>i. nonneg (strength i)) sellScenario"
    "list_all (\<lambda>i. nonneg (strength i)) holdScenario"
    by (simp_all add: nonneg_def)
  have r: "0 \<le> half 0" "half 0 < 1" by simp_all
  have a: "action (decide (Num 100) buyScenario (Num 0.2) half) = BUY"
    "action (decide (Num 100) sellScenario (Num (- 0.2)) half) = SELL"
    "action (decide (Num 100) holdScenario (Num 0) half) = HOLD"
    by (simp_all add: eval_defs)
  have t: "totalBuyStrength buyScenario (Num 0.2) = Num 74"
    "totalSellStrength buyScenario (Num 0.2) = Num 10"
    "totalBuyStrength sellScenario (Num (- 0.2)) = Num 10"
    "totalSellStrength sellScenario (Num (- 0.2)) = Num 74"
    by (simp_all add: eval_defs)
  have cb: "confidence (decide (Num 100) buyScenario (Num 0.2) half)
      = Num (min 95 (74 / (74 + 10) * 100))"
  proof -
    obtain b l c where h: "totalBuyStrength buyScenario (Num 0.2) = Num b"
        "totalSellStrength buyScenario (Num 0.2) = Num l"
        "confidence (decide (Num 100) buyScenario (Num 0.2) half) = Num c"
        "action (decide (Num 100) buyScenario (Num 0.2) half) = BUY \<longrightarrow>
           0 < b + l \<and> c = min 95 (b / (b + l) * 100) \<and> 0 \<le> c \<and> c \<le> 95"
      using confidence_range [OF n(1) r, of "0.2" "Num 100"] by blast
    have "b = 74" "l = 10" using h(1,2) unfolding t by simp_all
    then show ?thesis using h(3,4) a(1) by blast
  qed
  have cs: "confidence (decide (Num 100) sellScenario (Num (- 0.2)) half)
      = Num (min 95 (74 / (10 + 74) * 100))"
  proof -
    obtain b l c where h: "totalBuyStrength sellScenario (Num (- 0.2)) = Num b"
        "totalSellStrength sellScenario (Num (- 0.2)) = Num l"
        "confidence (decide (Num 100) sellScenario (Num (- 0.2)) half) = Num c"
        "action (decide (Num 100) sellScenario (Num (- 0.2)) half) = SELL \<longrightarrow>
           0 < b + l \<and> c = min 95 (l / (b + l) * 100) \<and> 0 \<le> c \<and> c \<le> 95"
      using confidence_range [OF n(2) r, of "- 0.2" "Num 100"] by blast
    have "b = 10" "l = 74" using h(1,2) unfolding t by simp_all
    then show ?thesis using h(3,4) a(2) by blast
  qed
  have ch: "confidence (decide (Num 100) holdScenario (Num 0) half) = Num 60"
    by (simp add: eval_defs)
  show ?thesis using n r a cb cs ch by simp
qed

text \<open>
  Claim C8. At price 100, for two BUY indicators of strengths 40 and 30 and one SELL
  indicator of strength 10 (whatever their names, values and descriptions), at sentiment
  0.2 and for every generator: the sentiment is positive, so \<open>0.2 * 20\<close> is added to the
  BUY strength; the totals are \<open>70 + 0.2 * 20 = 74\<close> and \<open>10\<close>; the action is BUY and the
  confidence is \<open>74 / 84 * 100\<close>, about 88.1.
\<close>

theorem scenario_buy:
  "action (decide (Num 100)
      [\<lparr> name = n1, val = v1, signal = BUY, strength = Num 40, description = d1 \<rparr>,
       \<lparr> name = n2, val = v2, signal = BUY, strength = Num 30, description = d2 \<rparr>,
       \<lparr> name = n3, val = v3, signal = SELL, strength = Num 10, description = d3 \<rparr>]
      (Num 0.2) g) = BUY \<and>
   confidence (decide (Num 100)
      [\<lparr> name = n1, val = v1, signal = BUY, strength = Num 40, description = d1 \<rparr>,
       \<lparr> name = n2, val = v2, signal = BUY, strength = Num 30, description = d2 \<rparr>,
       \<lparr> name = n3, val = v3, signal = SELL, strength = Num 10, description = d3 \<rparr>]
      (Num 0.2) g) = Num (74 / 84 * 100) \<and>
   totalBuyStrength
      [\<lparr> name = n1, val = v1, signal = BUY, strength = Num 40, description = d1 \<rparr>,
       \<lparr> name = n2, val = v2, signal = BUY, strength = Num 30, description = d2 \<rparr>,
       \<lparr> name = n3, val = v3, signal = SELL, strength = Num 10, description = d3 \<rparr>]
      (Num 0.2) = Num (70 + 0.2 * 20) \<and>
   totalSellStrength
      [\<lparr> name = n1, val = v1, signal = BUY, strength = Num 40, description = d1 \<rparr>,
       \<lparr> name = n2, val = v2, signal = BUY, strength = Num 30, description = d2 \<rparr>,
       \<lparr> name = n3, val = v3, signal = SELL, strength = Num 10, description = d3 \<rparr>]
      (Num 0.2) = Num 10"
  by (simp add: eval_defs)

theorem scenario_buy_witness:
  "action (decide (Num 100) buyScenario (Num 0.2) half) = BUY \<and>
   confidence (decide (Num 100) buyScenario (Num 0.2) half) = Num (74 / 84 * 100)"
  using scenario_buy [of "''RSI''" "Num 0" "[]" "''MACD''" "Num 0" "[]" "''MA''" "Num 0" "[]" half]
  by simp

section \<open>The risk level\<close>

text \<open>
  Claim C7. The risk level is a function of the confidence alone: LOW when the
  confidence is greater than 80, MEDIUM when it is greater than 60 and at most 80, HIGH
  otherwise (also for \<^verbatim>\<open>NaN\<close>). It is monotone: a confidence that is at least another
  never gets a riskier level. The \<open>riskLevel\<close> of \<^verbatim>\<open>generateSignalData\<close> is this function
  of the confidence of its signal.
\<close>

theorem riskTier_steps:
  "(js_gt c (Num 80) \<longrightarrow> riskTier c = LOW) \<and>
   (js_gt c (Num 60) \<and> js_le c (Num 80) \<longrightarrow> riskTier c = MEDIUM) \<and>
   (\<not> js_gt c (Num 80) \<and> \<not> (js_gt c (Num 60) \<and> js_le c (Num 80)) \<longrightarrow> riskTier c = HIGH) \<and>
   (js_le c c' \<longrightarrow> riskRank (riskTier c') \<le> riskRank (riskTier c)) \<and>
   riskLevel (fst (generateSignalData g)) =
     riskTier (confidence (tradingSignal (fst (generateSignalData g))))"
proof (intro conjI impI)
  show "js_gt c (Num 80) \<Longrightarrow> riskTier c = LOW" by (simp add: riskTier_def)
  show "js_gt c (Num 60) \<and> js_le c (Num 80) \<Longrightarrow> riskTier c = MEDIUM"
    by (cases c) (auto simp add: riskTier_def js_gt_def)
  show "\<not> js_gt c (Num 80) \<and> \<not> (js_gt c (Num 60) \<and> js_le c (Num 80)) \<Longrightarrow> riskTier c = HIGH"
    by (cases c) (auto simp add: riskTier_def js_gt_def)
  show "js_le c c' \<Longrightarrow> riskRank (riskTier c') \<le> riskRank (riskTier c)"
    by (cases c; cases c') (auto simp add: riskTier_def js_gt_def)
  show "riskLevel (fst (generateSignalData g)) =
     riskTier (confidence (tradingSignal (fst (generateSignalData g))))"
    by (simp add: generateSignalData_def Let_def split: prod.splits)
qed

theorem riskTier_steps_witness:
  "js_gt (Num 90) (Num 80) \<and> riskTier (Num 90) = LOW \<and>
   js_gt (Num 70) (Num 60) \<and> js_le (Num 70) (Num 80) \<and> riskTier (Num 70) = MEDIUM \<and>
   \<not> js_gt (Num 50) (Num 80) \<and> \<not> (js_gt (Num 50) (Num 60) \<and> js_le (Num 50) (Num 80)) \<and>
   riskTier (Num 50) = HIGH \<and> riskTier NaN = HIGH \<and>
   js_le (Num 50) (Num 90) \<and> riskRank (riskTier (Num 90)) \<le> riskRank (riskTier (Num 50))"
  using riskTier_steps [of "Num 90" "Num 90" half] riskTier_steps [of "Num 70" "Num 70" half]
    riskTier_steps [of "Num 50" "Num 90" half] riskTier_steps [of NaN NaN half]
  by (simp add: js_gt_def)

section \<open>The Bollinger Bands indicator\<close>

text \<open>
  Claim C10, as the code has it. For every price from \<open>2^-1000\<close> to \<open>2^1000\<close>, so for
  every price from 100 to 500 that \<^verbatim>\<open>generateSignalData\<close> passes, and for every
  generator, the Bollinger Bands indicator is constant up to rounding: its value is
  within \<open>10^-10\<close> of 50, its strength is within \<open>10^-10\<close> of 0, and its signal is HOLD. It
  is the fourth of the five indicators of \<^verbatim>\<open>calculateTechnicalIndicators\<close>, and an
  indicator list with it has the same BUY and SELL counts and the same total strengths as
  the list without it, so it never contributes a vote or a strength to the decision.
\<close>

theorem bollinger_hold:
  "(2 powi (- 1000) \<le> p \<and> p \<le> 2 powi 1000 \<longrightarrow>
      (\<exists>v t. val (bollingerIndicator (Num p)) = Num v \<and> \<bar>v - 50\<bar> \<le> 1 / 10 ^ 10 \<and>
             strength (bollingerIndicator (Num p)) = Num t \<and> 0 \<le> t \<and> t \<le> 1 / 10 ^ 10) \<and>
      signal (bollingerIndicator (Num p)) = HOLD \<and>
      buySignals (xs @ bollingerIndicator (Num p) # ys) = buySignals (xs @ ys) \<and>
      sellSignals (xs @ bollingerIndicator (Num p) # ys) = sellSignals (xs @ ys) \<and>
      totalBuyStrength (xs @ bollingerIndicator (Num p) # ys) s = totalBuyStrength (xs @ ys) s \<and>
      totalSellStrength (xs @ bollingerIndicator (Num p) # ys) s
        = totalSellStrength (xs @ ys) s) \<and>
   fst (calculateTechnicalIndicators q g) =
     [rsiIndicator (g 0), macdIndicator (g 1), maCrossIndicator q (g 2) (g 3),
      bollingerIndicator q, volumeIndicator (g 4)] \<and>
   (0 \<le> g 0 \<and> g 0 < 1 \<longrightarrow>
      (\<exists>c. currentPrice (fst (generateSignalData g)) = Num c \<and> 100 \<le> c \<and> c < 500 \<and>
           2 powi (- 1000) \<le> c \<and> c \<le> 2 powi 1000 \<and>
           indicators (fst (generateSignalData g)) ! 3 = bollingerIndicator (Num c)))"
proof (intro conjI impI)
  assume r: "2 powi (- 1000) \<le> p \<and> p \<le> 2 powi 1000"
  then obtain v t where b: "bollingerIndicator (Num p) =
           \<lparr> name = ''Bollinger Bands'', val = Num v, signal = HOLD, strength = Num t,
             description = ''Volatility indicator using standard deviations'' \<rparr>"
      "\<bar>v - 50\<bar> \<le> 1 / 10 ^ 10" "0 \<le> t" "t \<le> 1 / 10 ^ 10"
    using bollinger_bounds [of p] by blast
  show "\<exists>v t. val (bollingerIndicator (Num p)) = Num v \<and> \<bar>v - 50\<bar> \<le> 1 / 10 ^ 10 \<and>
             strength (bollingerIndicator (Num p)) = Num t \<and> 0 \<le> t \<and> t \<le> 1 / 10 ^ 10"
    using b(2-4) unfolding b(1) by auto
  show h: "signal (bollingerIndicator (Num p)) = HOLD" unfolding b(1) by simp
  show "buySignals (xs @ bollingerIndicator (Num p) # ys) = buySignals (xs @ ys)"
    "sellSignals (xs @ bollingerIndicator (Num p) # ys) = sellSignals (xs @ ys)"
    "totalBuyStrength (xs @ bollingerIndicator (Num p) # ys) s = totalBuyStrength (xs @ ys) s"
    "totalSellStrength (xs @ bollingerIndicator (Num p) # ys) s = totalSellStrength (xs @ ys) s"
    using hold_skipped [OF h, of xs ys s] by simp_all
next
  show "fst (calculateTechnicalIndicators q g) =
     [rsiIndicator (g 0), macdIndicator (g 1), maCrossIndicator q (g 2) (g 3),
      bollingerIndicator q, volumeIndicator (g 4)]"
    by (simp add: calculateTechnicalIndicators_def Math_random_def numeral_eq_Suc)
next
  assume r: "0 \<le> g 0 \<and> g 0 < 1"
  have "100 \<le> 100 + g 0 * 400" "100 + g 0 * 400 < 500" using r by simp_all
  then show "\<exists>c. currentPrice (fst (generateSignalData g)) = Num c \<and> 100 \<le> c \<and> c < 500 \<and>
           2 powi (- 1000) \<le> c \<and> c \<le> 2 powi 1000 \<and>
           indicators (fst (generateSignalData g)) ! 3 = bollingerIndicator (Num c)"
    using signalData_price [of g] reachable_range [of "g 0"] r by blast
qed

theorem bollinger_hold_witness:
  "2 powi (- 1000) \<le> (126::real) \<and> (126::real) \<le> 2 powi 1000 \<and>
   signal (bollingerIndicator (Num 126)) = HOLD \<and>
   0 \<le> half 0 \<and> half 0 < 1 \<and>
   currentPrice (fst (generateSignalData half)) = Num 300 \<and>
   signal (indicators (fst (generateSignalData half)) ! 3) = HOLD"
proof -
  have r: "2 powi (- 1000) \<le> (126::real)" "(126::real) \<le> 2 powi 1000"
    using reachable_range [of "0.065"] by simp_all
  have r3: "2 powi (- 1000) \<le> (300::real)" "(300::real) \<le> 2 powi 1000"
    using reachable_range [of "1 / 2"] by simp_all
  have a: "signal (bollingerIndicator (Num 126)) = HOLD"
    using bollinger_hold [of 126] r by blast
  have b: "signal (bollingerIndicator (Num 300)) = HOLD"
    using bollinger_hold [of 300] r3 by blast
  have c: "currentPrice (fst (generateSignalData half)) = Num 300"
    "indicators (fst (generateSignalData half)) ! 3 = bollingerIndicator (Num 300)"
    using signalData_price [of half] by simp_all
  show ?thesis using r a b c by simp
qed

text \<open>
  The claim as it was stated, that the value is exactly 50 and the strength exactly 0,
  fails at price 126, which \<^verbatim>\<open>generateSignalData\<close> passes when its first draw is 0.065:
  the bands \<^verbatim>\<open>126 * 1.02\<close> and \<^verbatim>\<open>126 * 0.98\<close> are rounded, the band position is
  \<open>50 - 5/2^45\<close>, about 49.99999999999986, and the strength is \<open>5/2^44\<close>, about
  \<open>2.84 * 10^-13\<close>.
\<close>

theorem bollinger_inexact:
  "val (fst (calculateTechnicalIndicators (Num 126) half) ! 3)
     = Num (1759218604441595 / 35184372088832) \<and>
   strength (fst (calculateTechnicalIndicators (Num 126) half) ! 3)
     = Num (5 / 17592186044416) \<and>
   signal (fst (calculateTechnicalIndicators (Num 126) half) ! 3) = HOLD \<and>
   name (fst (calculateTechnicalIndicators (Num 126) half) ! 3) = ''Bollinger Bands'' \<and>
   (1759218604441595 / 35184372088832 :: real) < 50 \<and>
   (0 :: real) < 5 / 17592186044416 \<and>
   currentPrice (fst (generateSignalData (\<lambda>n. if n = 0 then 0.065 else 1 / 2))) = Num 126"
  by (simp add: calculateTechnicalIndicators_def Math_random_def bollingerIndicator_def
        generateSignalData_def dbl_mul_def dbl_sub_def dbl_div_def js_sub_def js_gt_def Let_def
        fl_126 split: prod.splits)

end
